theory Spec2Isabelle
  imports Main
begin

section \<open>Python values, text and exceptions\<close>

text \<open>
  The development embeds \<^verbatim>\<open>yt_dlp/networking/_urllib3.py\<close>. Python text is modelled as
  \<^typ>\<open>string\<close>; \<^verbatim>\<open>str.lower\<close> acts on the ASCII letters.
\<close>

datatype pyval = PNone | PInt int | PBytes string

definition char_lower :: "char \<Rightarrow> char" where
  "char_lower c =
     (let n = (of_char c :: nat) in if 65 \<le> n \<and> n \<le> 90 then char_of (n + 32) else c)"

definition lower :: "string \<Rightarrow> string" where
  "lower s = map char_lower s"

fun startswith :: "string \<Rightarrow> string \<Rightarrow> bool" where
  "startswith s [] = True"
| "startswith [] (p # ps) = False"
| "startswith (c # s) (p # ps) = (c = p \<and> startswith s ps)"

text \<open>\<^verbatim>\<open>sub in s\<close> on text.\<close>

fun str_contains :: "string \<Rightarrow> string \<Rightarrow> bool" where
  "str_contains [] sub = (sub = [])"
| "str_contains (c # s) sub = (startswith (c # s) sub \<or> str_contains s sub)"

definition digit_char :: "nat \<Rightarrow> char" where
  "digit_char n = char_of (48 + n mod 10)"

text \<open>\<^verbatim>\<open>str(n)\<close> for a non-negative integer.\<close>

fun str_nat :: "nat \<Rightarrow> string" where
  "str_nat n = (if n < 10 then [digit_char n] else str_nat (n div 10) @ [digit_char n])"

declare str_nat.simps [simp del]

text \<open>
  An exception object is described by what the source observes of it: the classes it is
  an instance of (\<^verbatim>\<open>isinstance\<close>, \<^verbatim>\<open>except\<close>), \<^verbatim>\<open>str(e)\<close>, \<^verbatim>\<open>str(e.args)\<close>,
  \<^verbatim>\<open>e.__cause__\<close>, \<^verbatim>\<open>e.reason\<close> and the attributes \<^verbatim>\<open>partial\<close> and \<^verbatim>\<open>expected\<close>
  (absent on most classes). The class hierarchy of the backend is not fixed here: every
  exception carries its own class list, so the results hold for any hierarchy.
\<close>

datatype exc_class =
    U3_HTTPError | U3_ProtocolError | U3_ReadTimeoutError | U3_IncompleteRead | U3_SSLError
  | U3_ConnectTimeoutError | U3_ProxyError | U3_MaxRetryError | U3_NewConnectionError
  | U3_TimeoutError | U3_PoolError | U3_LocationParseError | U3_LocationValueError
  | U3_ProxySchemeUnknown
  | HC_IncompleteRead | HC_HTTPException
  | Py_TimeoutError | Py_OSError | Py_ValueError | Py_TypeError | Py_AssertionError
  | Py_Exception
  | Socks_ProxyError

datatype raw_exc = RawExc
  (exc_classes: "exc_class list")
  (exc_str: string)
  (exc_args: string)
  (exc_cause: "raw_exc option")
  (exc_reason: "raw_exc option")
  (exc_partial: "pyval option")
  (exc_expected: "pyval option")

definition isinstance :: "raw_exc \<Rightarrow> exc_class \<Rightarrow> bool" where
  "isinstance e c = (c \<in> set (exc_classes e))"

definition isinstance_any :: "raw_exc \<Rightarrow> exc_class list \<Rightarrow> bool" where
  "isinstance_any e cs = (list_ex (isinstance e) cs)"

section \<open>Connections, backend responses and the response adapter\<close>

record connection =
  conn_id :: nat
  conn_host :: string
  conn_port :: nat

text \<open>
  The backend's response object as the source reads it. \<open>r_release_override\<close> records
  whether \<^verbatim>\<open>release_conn\<close> has been replaced by \<^verbatim>\<open>release_conn_override\<close>.
\<close>

record raw_response =
  r_geturl :: "string option"
  r_connection :: "connection option"
  r_headers :: "(string \<times> string) list"
  r_status :: int
  r_version :: int
  r_retries_total :: "int option"
  r_release_override :: bool

record adapter =
  a_res :: raw_response
  a_url :: "string option"
  a_headers :: "(string \<times> string) list"
  a_status :: int
  a_http_version :: int

section \<open>The error taxonomy\<close>

text \<open>
  The typed errors of \<^verbatim>\<open>yt_dlp.utils\<close> that the source raises, with the arguments it
  passes. \<open>HTTPError\<close> is the source's \<^verbatim>\<open>Urllib3HTTPError\<close>: the response and the
  \<^verbatim>\<open>redirect_loop\<close> flag.
\<close>

datatype error =
    TransportError string raw_exc
  | ConnectTimeoutError raw_exc
  | ReadTimeoutError raw_exc
  | IncompleteRead pyval pyval raw_exc
  | SSLError string raw_exc
  | ProxyError string raw_exc
  | HTTPError adapter bool

datatype kind =
  Transport | ConnectTimeout | ReadTimeout | IncompleteReadKind | TLS | Proxy | HTTPStatus
  | RedirectLoop

fun kind_of :: "error \<Rightarrow> kind" where
  "kind_of (TransportError m c) = Transport"
| "kind_of (ConnectTimeoutError c) = ConnectTimeout"
| "kind_of (ReadTimeoutError c) = ReadTimeout"
| "kind_of (IncompleteRead p x c) = IncompleteReadKind"
| "kind_of (SSLError m c) = TLS"
| "kind_of (ProxyError m c) = Proxy"
| "kind_of (HTTPError r l) = HTTPStatus"

datatype py_error = AttributeError | UnboundLocalError | TypeError

text \<open>
  What leaves a function by \<^verbatim>\<open>raise\<close>: a typed error, a backend exception passed on as
  it is, or an error of the interpreter.
\<close>

datatype raised = Typed error | Raw raw_exc | PyErr py_error

section \<open>Error translation\<close>

definition READ_ERRORS :: "exc_class list" where
  "READ_ERRORS = [U3_ReadTimeoutError, U3_IncompleteRead, U3_SSLError]"

text \<open>
  \<^verbatim>\<open>handle_protocol_error\<close>: \<open>None\<close> is a normal return (the argument is no
  \<^verbatim>\<open>ProtocolError\<close>). An exception object is truthy, so \<^verbatim>\<open>if original_cause\<close> tests for
  \<^verbatim>\<open>None\<close>; reading \<^verbatim>\<open>partial\<close> or \<^verbatim>\<open>expected\<close> off a cause that has none is an
  \<^verbatim>\<open>AttributeError\<close>.
\<close>

definition handle_protocol_error :: "raw_exc \<Rightarrow> raised option" where
  "handle_protocol_error e =
     (if isinstance e U3_ProtocolError then
        (let original_cause = exc_cause e in
         if (case original_cause of Some c \<Rightarrow> isinstance c HC_IncompleteRead | None \<Rightarrow> False)
            \<or> str_contains (lower (exc_str e)) ''incomplete read''
         then
           (case original_cause of
              Some c \<Rightarrow>
                (case (exc_partial c, exc_expected c) of
                   (Some p, Some x) \<Rightarrow> Some (Typed (IncompleteRead p x e))
                 | _ \<Rightarrow> Some (PyErr AttributeError))
            | None \<Rightarrow> Some (Typed (TransportError (exc_str e) e)))
         else Some (Typed (TransportError (exc_str e) e)))
      else None)"

text \<open>
  \<^verbatim>\<open>handle_read_errors\<close> re-raises its argument inside a \<^verbatim>\<open>try\<close>; the first matching
  \<^verbatim>\<open>except\<close> clause wins, and an exception that matches none propagates.
\<close>

definition handle_read_errors :: "raw_exc \<Rightarrow> raised" where
  "handle_read_errors e =
     (if isinstance e U3_ReadTimeoutError then Typed (ReadTimeoutError e)
      else if isinstance e U3_IncompleteRead then
        (case (exc_partial e, exc_expected e) of
           (Some p, Some x) \<Rightarrow> Typed (IncompleteRead p x e)
         | _ \<Rightarrow> PyErr AttributeError)
      else if isinstance e U3_SSLError then
        Typed (SSLError (case exc_cause e of Some c \<Rightarrow> exc_args c | None \<Rightarrow> exc_str e) e)
      else Raw e)"

datatype read_result = Data string | ReturnedNone

text \<open>
  \<^verbatim>\<open>Urllib3ResponseAdapter.read\<close>. The argument is what \<^verbatim>\<open>self._res.read(amt)\<close> does:
  it raises or returns bytes.
\<close>

definition read :: "raw_exc + string \<Rightarrow> raised + read_result" where
  "read backend =
     (case backend of
        Inr bytes \<Rightarrow> Inr (Data bytes)
      | Inl e \<Rightarrow>
          if isinstance_any e READ_ERRORS then Inl (handle_read_errors e)
          else if isinstance e U3_ProtocolError then
            (case handle_protocol_error e of Some x \<Rightarrow> Inl x | None \<Rightarrow> Inr ReturnedNone)
          else if isinstance e U3_HTTPError then Inl (Typed (TransportError (exc_str e) e))
          else Inl (Raw e))"

section \<open>The SOCKS connection\<close>

text \<open>
  \<^verbatim>\<open>raise urllib3.exceptions.ConnectTimeoutError from e\<close> raises an instance made with no
  arguments, whose cause is \<open>e\<close>; its classes are those of the backend's class.
\<close>

definition u3_ConnectTimeoutError_from :: "raw_exc \<Rightarrow> raw_exc" where
  "u3_ConnectTimeoutError_from e =
     RawExc [U3_ConnectTimeoutError, U3_TimeoutError, U3_HTTPError, Py_Exception]
       [] ''()'' (Some e) None None None"

text \<open>
  \<^verbatim>\<open>SocksHTTPConnection._new_conn\<close>. The argument is what \<^verbatim>\<open>sock.connect\<close> does: it
  raises, or the socket (a number here) is connected. The backend's \<^verbatim>\<open>ProxyError\<close> and
  \<^verbatim>\<open>NewConnectionError\<close> constructors have required positional parameters, so raising
  the bare class, which calls it with no arguments, ends in a \<^verbatim>\<open>TypeError\<close>.
\<close>

definition new_conn :: "raw_exc + nat \<Rightarrow> raised + nat" where
  "new_conn connect =
     (case connect of
        Inr sock \<Rightarrow> Inr sock
      | Inl e \<Rightarrow>
          if isinstance e Py_TimeoutError then Inl (Raw (u3_ConnectTimeoutError_from e))
          else if isinstance e Socks_ProxyError then Inl (PyErr TypeError)
          else if isinstance e Py_OSError then Inl (PyErr TypeError)
          else Inl (Raw e))"

section \<open>Header collections\<close>

type_synonym headers = "(string \<times> string) list"

text \<open>
  Modelled from the spec: \<^verbatim>\<open>UniqueHTTPHeaderStore\<close> of \<^verbatim>\<open>networking/common.py\<close>, which is
  not among the source files. The spec (section 3) makes a header collection
  case-insensitive and insertion-ordered, and layers its arguments so that a later layer
  overrides an earlier one; the unique store keeps one value per name.
\<close>

definition hs_contains :: "headers \<Rightarrow> string \<Rightarrow> bool" where
  "hs_contains h name = (lower name \<in> set (map (\<lambda>kv. lower (fst kv)) h))"

definition hs_del :: "headers \<Rightarrow> string \<Rightarrow> headers" where
  "hs_del h name = filter (\<lambda>kv. lower (fst kv) \<noteq> lower name) h"

definition hs_set :: "headers \<Rightarrow> string \<Rightarrow> string \<Rightarrow> headers" where
  "hs_set h name v = hs_del h name @ [(name, v)]"

definition hs_update :: "headers \<Rightarrow> headers \<Rightarrow> headers" where
  "hs_update h layer = fold (\<lambda>kv acc. hs_set acc (fst kv) (snd kv)) layer h"

definition UniqueHTTPHeaderStore :: "headers option list \<Rightarrow> headers" where
  "UniqueHTTPHeaderStore layers =
     fold (\<lambda>l acc. case l of None \<Rightarrow> acc | Some kv \<Rightarrow> hs_update acc kv) layers []"

definition SUPPORTED_ENCODINGS :: "bool \<Rightarrow> string list" where
  "SUPPORTED_ENCODINGS brotli = [''gzip'', ''deflate''] @ (if brotli then [''br''] else [])"

fun join :: "string \<Rightarrow> string list \<Rightarrow> string" where
  "join sep [] = []"
| "join sep [x] = x"
| "join sep (x # y # ys) = x @ sep @ join sep (y # ys)"

section \<open>URLs\<close>

text \<open>
  The backend's \<^verbatim>\<open>Url\<close> tuple and its \<^verbatim>\<open>url\<close> property; \<^verbatim>\<open>parse_url\<close> itself is a
  parameter of the handler (see \<open>env\<close> below).
\<close>

record u3url =
  u_scheme :: "string option"
  u_auth :: "string option"
  u_host :: "string option"
  u_port :: "nat option"
  u_path :: "string option"
  u_query :: "string option"
  u_fragment :: "string option"

definition opt_str :: "string \<Rightarrow> string option \<Rightarrow> string \<Rightarrow> string" where
  "opt_str pre x post = (case x of None \<Rightarrow> [] | Some s \<Rightarrow> pre @ s @ post)"

definition url_of :: "u3url \<Rightarrow> string" where
  "url_of u =
     opt_str [] (u_scheme u) ''://'' @ opt_str [] (u_auth u) ''@'' @ opt_str [] (u_host u) []
     @ opt_str '':'' (map_option str_nat (u_port u)) [] @ opt_str [] (u_path u) []
     @ opt_str ''?'' (u_query u) [] @ opt_str ''#'' (u_fragment u) []"

text \<open>
  \<^verbatim>\<open>urllib.parse.urlparse\<close> of the standard library (\<^verbatim>\<open>compat_urllib_parse_urlparse\<close>),
  on text. The validation of a bracketed host and of a non-ASCII network location, which
  end in \<^verbatim>\<open>ValueError\<close>, is the parameter \<open>netloc_ok\<close>; it is asked about a network
  location that is not empty.
\<close>

record parse_result =
  pr_scheme :: string
  pr_netloc :: string
  pr_path :: string
  pr_params :: string
  pr_query :: string
  pr_fragment :: string

definition uses_netloc :: "string list" where
  "uses_netloc = [[], ''ftp'', ''http'', ''gopher'', ''nntp'', ''telnet'', ''imap'', ''wais'',
     ''file'', ''mms'', ''https'', ''shttp'', ''snews'', ''prospero'', ''rtsp'', ''rtsps'',
     ''rtspu'', ''rsync'', ''svn'', ''svn+ssh'', ''sftp'', ''nfs'', ''git'', ''git+ssh'',
     ''ws'', ''wss'']"

definition uses_params :: "string list" where
  "uses_params = [[], ''ftp'', ''hdl'', ''prospero'', ''http'', ''imap'', ''https'', ''shttp'',
     ''rtsp'', ''rtsps'', ''rtspu'', ''sip'', ''sips'', ''mms'', ''sftp'', ''tel'']"

definition scheme_char :: "char \<Rightarrow> bool" where
  "scheme_char c =
     (let n = (of_char c :: nat) in
      (97 \<le> n \<and> n \<le> 122) \<or> (65 \<le> n \<and> n \<le> 90) \<or> (48 \<le> n \<and> n \<le> 57)
      \<or> c \<in> set ''+-.'')"

definition ascii_alpha :: "char \<Rightarrow> bool" where
  "ascii_alpha c =
     (let n = (of_char c :: nat) in (97 \<le> n \<and> n \<le> 122) \<or> (65 \<le> n \<and> n \<le> 90))"

text \<open>\<^verbatim>\<open>s.split(c, 1)\<close> when \<open>c\<close> occurs in \<open>s\<close>; \<^verbatim>\<open>s.partition(c)\<close> otherwise.\<close>

definition split_first :: "char \<Rightarrow> string \<Rightarrow> string \<times> string" where
  "split_first c s = (takeWhile (\<lambda>x. x \<noteq> c) s, drop 1 (dropWhile (\<lambda>x. x \<noteq> c) s))"

definition ValueError :: "string \<Rightarrow> raw_exc" where
  "ValueError msg = RawExc [Py_ValueError, Py_Exception] msg msg None None None None"

definition urlsplit ::
  "(string \<Rightarrow> bool) \<Rightarrow> string \<Rightarrow> raw_exc + (string \<times> string \<times> string \<times> string \<times> string)" where
  "urlsplit netloc_ok url0 =
     (let url1 = filter (\<lambda>c. c \<notin> {CHR 0x09, CHR 0x0D, CHR 0x0A})
                   (dropWhile (\<lambda>c. (of_char c :: nat) \<le> 32) url0);
          i = length (takeWhile (\<lambda>c. c \<noteq> CHR '':'') url1);
          has_scheme = (CHR '':'' \<in> set url1 \<and> 0 < i \<and> ascii_alpha (hd url1)
                        \<and> list_all scheme_char (take i url1));
          scheme = (if has_scheme then lower (take i url1) else []);
          url2 = (if has_scheme then drop (i + 1) url1 else url1);
          has_netloc = (take 2 url2 = ''//'');
          netloc = (if has_netloc then takeWhile (\<lambda>c. c \<notin> set ''/?#'') (drop 2 url2) else []);
          url3 = (if has_netloc then dropWhile (\<lambda>c. c \<notin> set ''/?#'') (drop 2 url2) else url2)
      in if has_netloc \<and> ((CHR ''['' \<in> set netloc \<and> CHR '']'' \<notin> set netloc)
                           \<or> (CHR '']'' \<in> set netloc \<and> CHR ''['' \<notin> set netloc))
         then Inl (ValueError ''Invalid IPv6 URL'')
         else if netloc \<noteq> [] \<and> \<not> netloc_ok netloc then Inl (ValueError ''invalid netloc'')
         else
           (let (url4, fragment) =
                  (if CHR ''#'' \<in> set url3 then split_first CHR ''#'' url3 else (url3, []));
                (url5, query) =
                  (if CHR ''?'' \<in> set url4 then split_first CHR ''?'' url4 else (url4, []))
            in Inr (scheme, netloc, url5, query, fragment)))"

definition splitparams :: "string \<Rightarrow> string \<times> string" where
  "splitparams url =
     (if CHR ''/'' \<in> set url then
        (let r = length url - 1 - length (takeWhile (\<lambda>c. c \<noteq> CHR ''/'') (rev url));
             pre = take r url; post = drop r url
         in if CHR '';'' \<in> set post
            then (pre @ takeWhile (\<lambda>c. c \<noteq> CHR '';'') post,
                  drop 1 (dropWhile (\<lambda>c. c \<noteq> CHR '';'') post))
            else (url, []))
      else if CHR '';'' \<in> set url then split_first CHR '';'' url
      else (butlast url, url))"

definition urlparse :: "(string \<Rightarrow> bool) \<Rightarrow> string \<Rightarrow> raw_exc + parse_result" where
  "urlparse netloc_ok url =
     (case urlsplit netloc_ok url of
        Inl e \<Rightarrow> Inl e
      | Inr (scheme, netloc, path, query, fragment) \<Rightarrow>
          (let (path', params) =
                 (if scheme \<in> set uses_params \<and> CHR '';'' \<in> set path
                  then splitparams path else (path, []))
           in Inr \<lparr>pr_scheme = scheme, pr_netloc = netloc, pr_path = path',
                    pr_params = params, pr_query = query, pr_fragment = fragment\<rparr>))"

text \<open>The \<^verbatim>\<open>hostname\<close> property of a parse result: \<open>None\<close> when the host part is empty.\<close>

definition hostname :: "parse_result \<Rightarrow> string option" where
  "hostname p =
     (let hostinfo = rev (takeWhile (\<lambda>c. c \<noteq> CHR ''@'') (rev (pr_netloc p)));
          host = (if CHR ''['' \<in> set hostinfo
                  then takeWhile (\<lambda>c. c \<noteq> CHR '']'')
                         (drop 1 (dropWhile (\<lambda>c. c \<noteq> CHR ''['') hostinfo))
                  else takeWhile (\<lambda>c. c \<noteq> CHR '':'') hostinfo)
      in if host = [] then None
         else Some (lower (takeWhile (\<lambda>c. c \<noteq> CHR ''%'') host)
                    @ dropWhile (\<lambda>c. c \<noteq> CHR ''%'') host))"

text \<open>\<^verbatim>\<open>ParseResult.geturl\<close>, that is \<^verbatim>\<open>urlunparse\<close>.\<close>

definition geturl :: "parse_result \<Rightarrow> string" where
  "geturl p =
     (let url1 = (if pr_params p \<noteq> [] then pr_path p @ '';'' @ pr_params p else pr_path p);
          url2 = (if pr_netloc p \<noteq> [] \<or> (pr_scheme p \<noteq> [] \<and> pr_scheme p \<in> set uses_netloc)
                     \<or> take 2 url1 = ''//''
                  then ''//'' @ pr_netloc p
                       @ (if url1 \<noteq> [] \<and> take 1 url1 \<noteq> ''/'' then ''/'' @ url1 else url1)
                  else url1);
          url3 = (if pr_scheme p \<noteq> [] then pr_scheme p @ '':'' @ url2 else url2);
          url4 = (if pr_query p \<noteq> [] then url3 @ ''?'' @ pr_query p else url3)
      in if pr_fragment p \<noteq> [] then url4 @ ''#'' @ pr_fragment p else url4)"

text \<open>
  \<^verbatim>\<open>Urllib3ResponseAdapter.__init__\<close>. An empty or absent URL is kept as it is; otherwise
  the URL is parsed and put together again, and a URL without a hostname first gets the
  connection's host and port as its network location and the scheme \<^verbatim>\<open>https\<close>. Reading
  \<^verbatim>\<open>host\<close> off an absent connection is an \<^verbatim>\<open>AttributeError\<close>.
\<close>

definition mk_adapter :: "raw_response \<Rightarrow> string option \<Rightarrow> adapter" where
  "mk_adapter res u =
     \<lparr>a_res = res, a_url = u, a_headers = r_headers res, a_status = r_status res,
      a_http_version = r_version res\<rparr>"

definition Urllib3ResponseAdapter :: "(string \<Rightarrow> bool) \<Rightarrow> raw_response \<Rightarrow> raised + adapter" where
  "Urllib3ResponseAdapter netloc_ok res =
     (case r_geturl res of
        None \<Rightarrow> Inr (mk_adapter res None)
      | Some u \<Rightarrow>
          if u = [] then Inr (mk_adapter res (Some u))
          else
            (case urlparse netloc_ok u of
               Inl e \<Rightarrow> Inl (Raw e)
             | Inr url_parsed \<Rightarrow>
                 if hostname url_parsed = None then
                   (case r_connection res of
                      None \<Rightarrow> Inl (PyErr AttributeError)
                    | Some c \<Rightarrow>
                        Inr (mk_adapter res
                          (Some (geturl (url_parsed
                             \<lparr>pr_scheme := ''https'',
                              pr_netloc := conn_host c @ '':'' @ str_nat (conn_port c)\<rparr>)))))
                 else Inr (mk_adapter res (Some (geturl url_parsed)))))"

definition adapter_geturl :: "adapter \<Rightarrow> string option" where
  "adapter_geturl a = a_url a"

section \<open>Forced closing after an HTTP error\<close>

text \<open>
  \<^verbatim>\<open>Urllib3HTTPError.__init__\<close> replaces the response's \<^verbatim>\<open>release_conn\<close> and then builds
  the \<^verbatim>\<open>HTTPError\<close>.
\<close>

definition Urllib3HTTPError :: "adapter \<Rightarrow> bool \<Rightarrow> error" where
  "Urllib3HTTPError response redirect_loop =
     HTTPError (response\<lparr>a_res := (a_res response)\<lparr>r_release_override := True\<rparr>\<rparr>) redirect_loop"

text \<open>
  The pool that lent the connection: the connections idle in it (free for the next
  request) and the connections that were closed.
\<close>

record world =
  w_idle :: "nat list"
  w_closed :: "nat list"

text \<open>
  A call of \<^verbatim>\<open>release_conn\<close> on the backend's response. With the override of the
  source, a connection that is still attached is closed and detached. Without it, the
  backend's own method hands the connection back to the pool and detaches it.
\<close>

definition release_conn :: "raw_response \<Rightarrow> world \<Rightarrow> raw_response \<times> world" where
  "release_conn r w =
     (case r_connection r of
        None \<Rightarrow> (r, w)
      | Some c \<Rightarrow>
          if r_release_override r
          then (r\<lparr>r_connection := None\<rparr>, w\<lparr>w_closed := conn_id c # w_closed w\<rparr>)
          else (r\<lparr>r_connection := None\<rparr>, w\<lparr>w_idle := conn_id c # w_idle w\<rparr>))"

fun release_conn_times :: "nat \<Rightarrow> raw_response \<Rightarrow> world \<Rightarrow> raw_response \<times> world" where
  "release_conn_times 0 r w = (r, w)"
| "release_conn_times (Suc n) r w =
     (case release_conn r w of (r', w') \<Rightarrow> release_conn_times n r' w')"

section \<open>Requests and the handler's environment\<close>

record request =
  req_method :: string
  req_url :: string
  req_headers :: headers
  req_unredirected_headers :: headers
  req_data :: "string option"
  req_proxy :: "string option"
  req_timeout :: nat
  req_compression :: bool

text \<open>The arguments the source gives to \<^verbatim>\<open>urllib3.Retry\<close> and to \<^verbatim>\<open>urlopen\<close>.\<close>

record retry =
  remove_headers_on_redirect :: "string list"
  raise_on_redirect :: bool
  retry_other :: nat
  retry_read :: nat
  retry_connect :: nat

record urlopen_args =
  ua_method :: string
  ua_url :: string
  ua_request_url :: string
  ua_headers :: headers
  ua_body :: "string option"
  ua_preload_content :: bool
  ua_timeout :: nat
  ua_retries :: retry
  ua_redirect :: bool

datatype pool_kind = PoolManager | ProxyManager | SocksProxyManager

text \<open>A pool manager object; \<open>pool_id\<close> is its identity, fresh at each construction.\<close>

record pool =
  pool_id :: nat
  pool_kind :: pool_kind
  pool_proxy :: "string option"
  pool_source_address :: "(string \<times> nat) option"

text \<open>
  What the handler takes from outside the source files: the default and the session
  headers, the configured source address, whether a brotli decoder is present, the
  backend's \<^verbatim>\<open>parse_url\<close> and \<^verbatim>\<open>urlopen\<close>, the cookie store's operations (over any
  type \<open>'j\<close> of stores) and the truth value of a store, the validation inside
  \<^verbatim>\<open>urlparse\<close>, and what \<^verbatim>\<open>make_ssl_context\<close> and \<^verbatim>\<open>socks_create_proxy_args\<close> of
  \<^verbatim>\<open>networking/utils.py\<close> raise, if they raise.
\<close>

record 'j env =
  e_std_headers :: headers
  e_http_headers :: "headers option"
  e_source_address :: "string option"
  e_brotli :: bool
  e_parse_url :: "string \<Rightarrow> raw_exc + u3url"
  e_urlopen :: "pool \<Rightarrow> urlopen_args \<Rightarrow> raw_exc + raw_response"
  e_add_cookie_header :: "'j \<Rightarrow> request \<Rightarrow> 'j \<times> request"
  e_extract_cookies :: "'j \<Rightarrow> adapter \<Rightarrow> request \<Rightarrow> 'j"
  e_jar_truthy :: "'j \<Rightarrow> bool"
  e_netloc_ok :: "string \<Rightarrow> bool"
  e_make_ssl_context :: "raw_exc option"
  e_socks_create_proxy_args :: "string \<Rightarrow> raw_exc option"

text \<open>The handler object: the pool dictionary, the next fresh identity, the cookie store.\<close>

record 'j rh =
  pools :: "string \<Rightarrow> pool option"
  next_id :: nat
  cookiejar :: 'j

section \<open>The pool registry\<close>

text \<open>
  \<^verbatim>\<open>_create_pm\<close> builds a new pool manager of the kind the proxy asks for, or raises
  what a constructor raises. \<^verbatim>\<open>make_ssl_context\<close> and \<^verbatim>\<open>socks_create_proxy_args\<close> are
  parameters (see \<open>env\<close>). The backend's \<^verbatim>\<open>ProxyManager\<close> parses the proxy with
  \<^verbatim>\<open>parse_url\<close> and raises \<^verbatim>\<open>ProxySchemeUnknown\<close>, a subclass of its \<^verbatim>\<open>HTTPError\<close>, unless
  the scheme is \<^verbatim>\<open>http\<close> or \<^verbatim>\<open>https\<close>. When a constructor raises, no manager is made.
  \<open>truthy\<close> is the truth value of an optional text: neither \<^verbatim>\<open>None\<close> nor empty.
\<close>

definition truthy :: "string option \<Rightarrow> bool" where
  "truthy x = (case x of None \<Rightarrow> False | Some s \<Rightarrow> s \<noteq> [])"

definition ProxySchemeUnknown :: "string option \<Rightarrow> raw_exc" where
  "ProxySchemeUnknown scheme =
     (let msg = (case scheme of
                   None \<Rightarrow> ''Proxy URL had no scheme, should start with http:// or https://''
                 | Some sch \<Rightarrow> ''Proxy URL had unsupported scheme '' @ sch
                               @ '', should use http:// or https://'')
      in RawExc [U3_ProxySchemeUnknown, Py_AssertionError, U3_LocationValueError, Py_ValueError,
                 U3_HTTPError, Py_Exception] msg msg None None None None)"

definition create_pm :: "'j env \<Rightarrow> string option \<Rightarrow> 'j rh \<Rightarrow> (raw_exc + pool) \<times> 'j rh" where
  "create_pm env proxy s =
     (let source_address = e_source_address env;
          addr = (if truthy source_address then Some (the source_address, 0) else None);
          built = (\<lambda>kind p.
                     (Inr \<lparr>pool_id = next_id s, pool_kind = kind, pool_proxy = p,
                           pool_source_address = addr\<rparr>,
                      s\<lparr>next_id := Suc (next_id s)\<rparr>))
      in case e_make_ssl_context env of
           Some e \<Rightarrow> (Inl e, s)
         | None \<Rightarrow>
             if truthy proxy then
               if startswith (the proxy) ''socks'' then
                 (case e_socks_create_proxy_args env (the proxy) of
                    Some e \<Rightarrow> (Inl e, s)
                  | None \<Rightarrow> built SocksProxyManager proxy)
               else
                 (case e_parse_url env (the proxy) of
                    Inl e \<Rightarrow> (Inl e, s)
                  | Inr parsed \<Rightarrow>
                      if u_scheme parsed = Some ''http'' \<or> u_scheme parsed = Some ''https''
                      then built ProxyManager proxy
                      else (Inl (ProxySchemeUnknown (u_scheme parsed)), s))
             else built PoolManager None)"

definition pool_key :: "string option \<Rightarrow> string" where
  "pool_key proxy = (if truthy proxy then the proxy else ''__noproxy__'')"

text \<open>
  \<^verbatim>\<open>get_pool\<close>: the argument of \<^verbatim>\<open>setdefault\<close> is evaluated first, so a pool manager is
  built at every call; it is stored only when the key is new. When the building raises,
  \<^verbatim>\<open>get_pool\<close> raises and the dictionary stays as it was.
\<close>

definition get_pool :: "'j env \<Rightarrow> string option \<Rightarrow> 'j rh \<Rightarrow> (raw_exc + pool) \<times> 'j rh" where
  "get_pool env proxy s =
     (case create_pm env proxy s of
        (Inl e, s') \<Rightarrow> (Inl e, s')
      | (Inr pm, s') \<Rightarrow>
          (case pools s' (pool_key proxy) of
             Some stored \<Rightarrow> (Inr stored, s')
           | None \<Rightarrow> (Inr pm, s'\<lparr>pools := (pools s')(pool_key proxy \<mapsto> pm)\<rparr>)))"


section \<open>The handler\<close>

text \<open>The header set given to \<^verbatim>\<open>urlopen\<close> (\<^verbatim>\<open>dict(headers)\<close>).\<close>

definition dispatch_headers :: "'j env \<Rightarrow> request \<Rightarrow> headers" where
  "dispatch_headers env request =
     (let headers0 = UniqueHTTPHeaderStore
            [Some (e_std_headers env), e_http_headers env, Some (req_headers request),
             Some (req_unredirected_headers request)];
          headers1 = (if \<not> hs_contains headers0 ''Accept-Encoding''
                      then hs_set headers0 ''Accept-Encoding''
                             (join '', '' (SUPPORTED_ENCODINGS (e_brotli env)))
                      else headers0)
      in if \<not> req_compression request then hs_del headers1 ''accept-encoding'' else headers1)"

definition dispatch_retries :: "request \<Rightarrow> retry" where
  "dispatch_retries request =
     \<lparr>remove_headers_on_redirect = map fst (req_unredirected_headers request),
      raise_on_redirect = False, retry_other = 0, retry_read = 0, retry_connect = 0\<rparr>"

text \<open>
  The proxy given to \<^verbatim>\<open>get_pool\<close>. \<^verbatim>\<open>parse_url\<close> is called outside the \<^verbatim>\<open>try\<close>
  statement, so what it raises leaves the handler as it is.
\<close>

definition resolve_proxy :: "(string \<Rightarrow> raw_exc + u3url) \<Rightarrow> request \<Rightarrow> raised + string option" where
  "resolve_proxy parse_url request =
     (let proxy = req_proxy request in
      if truthy proxy then
        (case parse_url (the proxy) of
           Inl e \<Rightarrow> Inl (Raw e)
         | Inr proxy_parsed \<Rightarrow>
             if u_scheme proxy_parsed = None then
               (case parse_url (req_url request) of
                  Inl e \<Rightarrow> Inl (Raw e)
                | Inr target \<Rightarrow> Inr (Some (url_of (proxy_parsed\<lparr>u_scheme := u_scheme target\<rparr>))))
             else Inr proxy)
      else Inr proxy)"

text \<open>
  The inner \<^verbatim>\<open>except MaxRetryError\<close>: the reason is raised instead when there is one.
\<close>

definition reraise_reason :: "raw_exc \<Rightarrow> raw_exc" where
  "reraise_reason e =
     (if isinstance e U3_MaxRetryError
      then (case exc_reason e of Some r \<Rightarrow> r | None \<Rightarrow> e)
      else e)"

text \<open>
  The outer \<^verbatim>\<open>except\<close> clauses, in the order of the source. \<open>None\<close> is a handler that
  returned without raising.
\<close>

definition translate_fault :: "raw_exc \<Rightarrow> raised option" where
  "translate_fault e =
     (if isinstance e U3_ConnectTimeoutError then Some (Typed (ConnectTimeoutError e))
      else if isinstance e U3_ProxyError then Some (Typed (ProxyError (exc_str e) e))
      else if isinstance_any e READ_ERRORS then Some (handle_read_errors e)
      else if isinstance e U3_ProtocolError then handle_protocol_error e
      else if isinstance e U3_HTTPError then Some (Typed (TransportError (exc_str e) e))
      else Some (Raw e))"

definition dispatch_args :: "'j env \<Rightarrow> request \<Rightarrow> urlopen_args" where
  "dispatch_args env request =
     \<lparr>ua_method = req_method request, ua_url = req_url request,
      ua_request_url = req_url request, ua_headers = dispatch_headers env request,
      ua_body = req_data request, ua_preload_content = False,
      ua_timeout = req_timeout request, ua_retries = dispatch_retries request,
      ua_redirect = True\<rparr>"

text \<open>
  What a fault raised inside the \<^verbatim>\<open>try\<close> statement leaves the handler as: the inner
  \<^verbatim>\<open>except MaxRetryError\<close>, then the outer \<^verbatim>\<open>except\<close> clauses. A clause that returned
  normally would leave \<^verbatim>\<open>urllib3_res\<close> unbound.
\<close>

definition except_clauses :: "raw_exc \<Rightarrow> raised" where
  "except_clauses e =
     (case translate_fault (reraise_reason e) of
        Some x \<Rightarrow> x
      | None \<Rightarrow> PyErr UnboundLocalError)"

text \<open>
  \<^verbatim>\<open>Urllib3RH._real_handle\<close>, in three parts. \<open>prepare\<close> is the part before the call of
  \<^verbatim>\<open>urlopen\<close>: the cookie header, the retry policy and the headers, the proxy, the pool.
  It ends with what was raised and the handler, or with the request as the cookie store
  left it, the pool, the arguments of \<^verbatim>\<open>urlopen\<close> and the handler. \<^verbatim>\<open>parse_url\<close> is
  called before the \<^verbatim>\<open>try\<close> statement, so what it raises is raised as it is;
  \<^verbatim>\<open>get_pool\<close> is called inside it, so what it raises goes through the \<^verbatim>\<open>except\<close>
  clauses.
\<close>

definition prepare ::
  "'j env \<Rightarrow> request \<Rightarrow> 'j rh \<Rightarrow> (raised \<times> 'j rh) + (request \<times> pool \<times> urlopen_args \<times> 'j rh)" where
  "prepare env request0 s0 =
     (case e_add_cookie_header env (cookiejar s0) request0 of
        (jar, request) \<Rightarrow>
          (let s1 = s0\<lparr>cookiejar := jar\<rparr> in
           case resolve_proxy (e_parse_url env) request of
             Inl x \<Rightarrow> Inl (x, s1)
           | Inr proxy \<Rightarrow>
               (case get_pool env proxy s1 of
                  (Inl e, s2) \<Rightarrow> Inl (except_clauses e, s2)
                | (Inr pm, s2) \<Rightarrow> Inr (request, pm, dispatch_args env request, s2))))"

text \<open>
  \<open>conclude\<close> is the part after the call: the \<^verbatim>\<open>except\<close> clauses when \<^verbatim>\<open>urlopen\<close>
  raised, and otherwise the adapter, the status check and the cookie extraction. A
  handler of the \<^verbatim>\<open>try\<close> statement that returned normally would leave
  \<^verbatim>\<open>urllib3_res\<close> unbound.
\<close>

definition conclude ::
  "'j env \<Rightarrow> request \<Rightarrow> 'j rh \<Rightarrow> raw_exc + raw_response \<Rightarrow> (raised + adapter) \<times> 'j rh" where
  "conclude env request s outcome =
     (case outcome of
        Inl e \<Rightarrow>
          (case translate_fault (reraise_reason e) of
             Some x \<Rightarrow> (Inl x, s)
           | None \<Rightarrow> (Inl (PyErr UnboundLocalError), s))
      | Inr urllib3_res \<Rightarrow>
          (case Urllib3ResponseAdapter (e_netloc_ok env) urllib3_res of
             Inl x \<Rightarrow> (Inl x, s)
           | Inr res \<Rightarrow>
               if \<not> (200 \<le> a_status res \<and> a_status res < 300)
               then (Inl (Typed (Urllib3HTTPError res (r_retries_total urllib3_res = Some 0))), s)
               else if e_jar_truthy env (cookiejar s)
               then (Inr res, s\<lparr>cookiejar := e_extract_cookies env (cookiejar s) res request\<rparr>)
               else (Inr res, s)))"

text \<open>The whole call: what it raises or returns, and the handler afterwards.\<close>

definition real_handle :: "'j env \<Rightarrow> request \<Rightarrow> 'j rh \<Rightarrow> (raised + adapter) \<times> 'j rh" where
  "real_handle env request0 s0 =
     (case prepare env request0 s0 of
        Inl (x, s1) \<Rightarrow> (Inl x, s1)
      | Inr (request, pm, args, s2) \<Rightarrow> conclude env request s2 (e_urlopen env pm args))"

section \<open>Redirects inside the backend\<close>

text \<open>
  Modelled from the spec: the redirect traversal, which runs inside the backend's
  \<^verbatim>\<open>urlopen\<close> and is not among the source files. Section 4.5 of the spec has the headers
  named by the retry policy's \<^verbatim>\<open>remove_headers_on_redirect\<close> stripped from the header
  set of the redirected request when the target is on another host, and kept otherwise;
  names compare without regard to case (section 3).
\<close>

definition redirect_headers :: "retry \<Rightarrow> bool \<Rightarrow> headers \<Rightarrow> headers" where
  "redirect_headers retries same_host hdrs =
     (if remove_headers_on_redirect retries \<noteq> [] \<and> \<not> same_host
      then filter (\<lambda>kv. lower (fst kv) \<notin> set (map lower (remove_headers_on_redirect retries)))
             hdrs
      else hdrs)"

section \<open>Conditions on faults, and the backend's reports\<close>

definition has_counts :: "raw_exc \<Rightarrow> bool" where
  "has_counts e = (exc_partial e \<noteq> None \<and> exc_expected e \<noteq> None)"

text \<open>
  The counts are there wherever the translation reads them: on an instance of the
  backend's \<^verbatim>\<open>IncompleteRead\<close>, and on the cause of an error that the test of
  \<^verbatim>\<open>handle_protocol_error\<close> takes for an incomplete read.
\<close>

definition counts_readable :: "raw_exc \<Rightarrow> bool" where
  "counts_readable e =
     ((isinstance e U3_IncompleteRead \<longrightarrow> has_counts e) \<and>
      (case exc_cause e of
         None \<Rightarrow> True
       | Some c \<Rightarrow>
           (isinstance c HC_IncompleteRead
            \<or> str_contains (lower (exc_str e)) ''incomplete read'') \<longrightarrow> has_counts c))"

definition fault_kinds :: "kind set" where
  "fault_kinds = {Transport, ConnectTimeout, ReadTimeout, IncompleteReadKind, TLS, Proxy}"

text \<open>
  What the backend (urllib3 1.26) raises out of a body read when a body declared as \<open>n\<close>
  bytes ends after \<open>k\<close> bytes: \<^verbatim>\<open>http.client\<close> raises its \<^verbatim>\<open>IncompleteRead\<close>, and the
  response's error catcher raises \<^verbatim>\<open>ProtocolError('Connection broken: %r' % e, e)\<close> in
  its place, inside the \<^verbatim>\<open>except\<close> block and without \<^verbatim>\<open>from\<close>: the new exception has no
  \<^verbatim>\<open>__cause__\<close>, and its text is that of its two arguments.
\<close>

definition connection_broken_fault :: "nat \<Rightarrow> nat \<Rightarrow> raw_exc" where
  "connection_broken_fault n k =
     (let r = ''IncompleteRead('' @ str_nat k @ '' bytes read, '' @ str_nat (n - k)
              @ '' more expected)'';
          t = ''('' @ [CHR 0x27] @ ''Connection broken: '' @ r @ [CHR 0x27] @ '', '' @ r @ '')''
      in RawExc [U3_ProtocolError, U3_HTTPError, Py_Exception] t t None None None None)"

text \<open>What the backend's \<^verbatim>\<open>parse_url\<close> raises on a URL it cannot parse.\<close>

definition LocationParseError :: "string \<Rightarrow> raw_exc" where
  "LocationParseError location =
     RawExc [U3_LocationParseError, U3_LocationValueError, Py_ValueError, U3_HTTPError,
             Py_Exception]
       (''Failed to parse: '' @ location) (''Failed to parse: '' @ location)
       None None None None"

section \<open>Example values\<close>

definition socket_timeout :: raw_exc where
  "socket_timeout =
     RawExc [Py_TimeoutError, Py_OSError, Py_Exception] ''timed out'' ''timed out''
       None None None None"

definition u3_read_timeout :: raw_exc where
  "u3_read_timeout =
     RawExc [U3_ReadTimeoutError, U3_TimeoutError, U3_PoolError, U3_HTTPError, Py_Exception]
       ''Read timed out.'' ''Read timed out.'' None None None None"

definition u3_max_retry :: "raw_exc \<Rightarrow> raw_exc" where
  "u3_max_retry r =
     RawExc [U3_MaxRetryError, U3_PoolError, U3_HTTPError, Py_Exception]
       ''Max retries exceeded'' ''Max retries exceeded'' None (Some r) None None"

text \<open>
  A stand-in for the backend's \<^verbatim>\<open>parse_url\<close>, which answers as it does on the URLs of the
  examples: a port out of range cannot be parsed; in \<^verbatim>\<open>myproxy:8080\<close> the host name is
  read as a scheme; an address and a port have no scheme.
\<close>

definition demo_parse_url :: "string \<Rightarrow> raw_exc + u3url" where
  "demo_parse_url s =
     (let none = \<lparr>u_scheme = None, u_auth = None, u_host = None, u_port = None,
                  u_path = None, u_query = None, u_fragment = None\<rparr>;
          scheme = takeWhile (\<lambda>c. c \<noteq> CHR '':'') s;
          rest = drop (length scheme + 3) s;
          path = dropWhile (\<lambda>c. c \<noteq> CHR ''/'') rest
      in if s = ''http://proxy.example:99999'' then Inl (LocationParseError s)
         else if s = ''myproxy:8080''
         then Inr (none\<lparr>u_scheme := Some ''myproxy'', u_path := Some ''/8080''\<rparr>)
         else if s = ''1.2.3.4:1080''
         then Inr (none\<lparr>u_host := Some ''1.2.3.4'', u_port := Some 1080\<rparr>)
         else if str_contains s ''://''
         then Inr (none\<lparr>u_scheme := Some (lower scheme),
                       u_host := Some (takeWhile (\<lambda>c. c \<noteq> CHR ''/'') rest),
                       u_path := (if path = [] then None else Some path)\<rparr>)
         else Inr (none\<lparr>u_host := Some s\<rparr>))"

definition demo_response :: "string \<Rightarrow> int \<Rightarrow> raw_response" where
  "demo_response u status =
     \<lparr>r_geturl = Some u,
      r_connection = Some \<lparr>conn_id = 7, conn_host = ''example.com'', conn_port = 443\<rparr>,
      r_headers = [(''Set-Cookie'', ''sid=1'')], r_status = status, r_version = 11,
      r_retries_total = Some 10, r_release_override = False\<rparr>"

definition demo_urlopen :: "pool \<Rightarrow> urlopen_args \<Rightarrow> raw_exc + raw_response" where
  "demo_urlopen pm args =
     (if ua_url args = ''https://example.com/video'' \<or> ua_url args = ''https://example.com/video?''
      then Inr (demo_response (ua_url args) 200)
      else if ua_url args = ''https://example.com/missing''
      then Inr (demo_response (ua_url args) 500)
      else if ua_url args = ''https://example.com/moved''
      then Inr (demo_response ''/watch?v=1'' 200)
      else if ua_url args = ''https://slow.example/''
      then Inl (u3_max_retry (u3_ConnectTimeoutError_from socket_timeout))
      else Inl socket_timeout)"

text \<open>
  A cookie store as the list of its cookies: it is false when empty, it adds a
  \<^verbatim>\<open>Cookie\<close> header to the unredirected headers of a request that has none, and it takes
  the values of the \<^verbatim>\<open>Set-Cookie\<close> headers of a response.
\<close>

definition demo_add_cookie_header :: "string list \<Rightarrow> request \<Rightarrow> string list \<times> request" where
  "demo_add_cookie_header jar r =
     (jar,
      if jar = [] \<or> hs_contains (req_headers r) ''Cookie''
         \<or> hs_contains (req_unredirected_headers r) ''Cookie''
      then r
      else r\<lparr>req_unredirected_headers :=
               req_unredirected_headers r @ [(''Cookie'', join ''; '' jar)]\<rparr>)"

definition demo_extract_cookies :: "string list \<Rightarrow> adapter \<Rightarrow> request \<Rightarrow> string list" where
  "demo_extract_cookies jar res r =
     jar @ map snd (filter (\<lambda>kv. lower (fst kv) = ''set-cookie'') (a_headers res))"

definition demo_env :: "string list env" where
  "demo_env =
     \<lparr>e_std_headers = [(''User-Agent'', ''Mozilla/5.0''), (''Accept'', ''*/*'')],
      e_http_headers = None, e_source_address = None, e_brotli = False,
      e_parse_url = demo_parse_url, e_urlopen = demo_urlopen,
      e_add_cookie_header = demo_add_cookie_header,
      e_extract_cookies = demo_extract_cookies,
      e_jar_truthy = (\<lambda>jar. jar \<noteq> []), e_netloc_ok = (\<lambda>netloc. True),
      e_make_ssl_context = None, e_socks_create_proxy_args = (\<lambda>proxy. None)\<rparr>"

definition demo_state :: "string list rh" where
  "demo_state = \<lparr>pools = Map.empty, next_id = 0, cookiejar = [''a=b'']\<rparr>"

definition demo_request :: "string \<Rightarrow> request" where
  "demo_request u =
     \<lparr>req_method = ''GET'', req_url = u, req_headers = [(''Accept-Encoding'', ''identity'')],
      req_unredirected_headers = [(''Authorization'', ''Bearer t'')], req_data = None,
      req_proxy = None, req_timeout = 20, req_compression = True\<rparr>"

definition demo_500 :: raw_response where
  "demo_500 = demo_response ''https://example.com/missing'' 500"

text \<open>
  What \<^verbatim>\<open>urlopen\<close> did in a call of the handler; \<open>None\<close> when the call ended before
  reaching it.
\<close>

definition urlopen_result :: "'j env \<Rightarrow> request \<Rightarrow> 'j rh \<Rightarrow> (raw_exc + raw_response) option" where
  "urlopen_result env request0 s0 =
     (case prepare env request0 s0 of
        Inl failed \<Rightarrow> None
      | Inr (request, pm, args, s2) \<Rightarrow> Some (e_urlopen env pm args))"

text \<open>The request as the cookie store left it, and the store after that step.\<close>

definition sent_request :: "'j env \<Rightarrow> request \<Rightarrow> 'j rh \<Rightarrow> request" where
  "sent_request env request0 s0 = snd (e_add_cookie_header env (cookiejar s0) request0)"

definition jar_at_dispatch :: "'j env \<Rightarrow> request \<Rightarrow> 'j rh \<Rightarrow> 'j" where
  "jar_at_dispatch env request0 s0 = fst (e_add_cookie_header env (cookiejar s0) request0)"


definition resolved_proxy :: "'j env \<Rightarrow> request \<Rightarrow> 'j rh \<Rightarrow> raised + string option" where
  "resolved_proxy env request0 s0 =
     resolve_proxy (e_parse_url env) (sent_request env request0 s0)"

text \<open>The kind of the typed error a call ended with, if it ended with one.\<close>

definition raised_kind :: "raised + adapter \<Rightarrow> kind option" where
  "raised_kind outcome =
     (case outcome of Inl (Typed err) \<Rightarrow> Some (kind_of err) | _ \<Rightarrow> None)"

section \<open>The steps of the handler\<close>

lemma create_pm_state:
  "snd (create_pm env p s) =
     (case fst (create_pm env p s) of
        Inl e \<Rightarrow> s
      | Inr pm \<Rightarrow> s\<lparr>next_id := Suc (next_id s)\<rparr>)"
  by (simp add: create_pm_def Let_def split: option.splits sum.splits)




lemma get_pool_result:
  "get_pool env p s =
     (case fst (create_pm env p s) of
        Inl e \<Rightarrow> (Inl e, s)
      | Inr pm \<Rightarrow>
          (case pools s (pool_key p) of
             Some stored \<Rightarrow> (Inr stored, s\<lparr>next_id := Suc (next_id s)\<rparr>)
           | None \<Rightarrow> (Inr pm, s\<lparr>next_id := Suc (next_id s),
                               pools := (pools s)(pool_key p \<mapsto> pm)\<rparr>)))"
proof (cases "create_pm env p s")
  case (Pair r s')
  with create_pm_state [of env p s] show ?thesis
    by (cases r) (simp_all add: get_pool_def split: option.splits)
qed

lemma get_pool_failed:
  "fst (get_pool env p s) = Inl e \<Longrightarrow> snd (get_pool env p s) = s"
  by (auto simp: get_pool_result split: sum.splits option.splits)








lemma get_pool_cookiejar: "cookiejar (snd (get_pool env p s)) = cookiejar s"
  by (simp add: get_pool_result split: sum.splits option.splits)


lemma prepare_cases:
  "prepare env request0 s0 =
     (case resolve_proxy (e_parse_url env) (sent_request env request0 s0) of
        Inl x \<Rightarrow> Inl (x, s0\<lparr>cookiejar := jar_at_dispatch env request0 s0\<rparr>)
      | Inr proxy \<Rightarrow>
          (case fst (get_pool env proxy (s0\<lparr>cookiejar := jar_at_dispatch env request0 s0\<rparr>)) of
             Inl e \<Rightarrow>
               Inl (except_clauses e,
                    snd (get_pool env proxy
                           (s0\<lparr>cookiejar := jar_at_dispatch env request0 s0\<rparr>)))
           | Inr pm \<Rightarrow>
               Inr (sent_request env request0 s0, pm,
                    dispatch_args env (sent_request env request0 s0),
                    snd (get_pool env proxy
                           (s0\<lparr>cookiejar := jar_at_dispatch env request0 s0\<rparr>)))))"
  by (simp add: prepare_def sent_request_def jar_at_dispatch_def Let_def
      split: prod.splits sum.splits)

lemma prepare_dispatch:
  assumes "prepare env request0 s0 = Inr (request, pm, args, s2)"
  shows "request = sent_request env request0 s0 \<and> args = dispatch_args env request
         \<and> cookiejar s2 = jar_at_dispatch env request0 s0"
  using assms by (auto simp: prepare_cases get_pool_cookiejar split: sum.splits)

lemma prepare_failed:
  assumes "prepare env request0 s0 = Inl (x, s1)"
  shows "cookiejar s1 = jar_at_dispatch env request0 s0 \<and> pools s1 = pools s0"
  using assms by (auto simp: prepare_cases get_pool_failed split: sum.splits)

lemma conclude_failure_jar:
  "fst (conclude env request s outcome) = Inl x \<Longrightarrow>
     cookiejar (snd (conclude env request s outcome)) = cookiejar s"
  by (auto simp: conclude_def split: sum.splits option.splits if_splits)

lemma conclude_success_jar:
  "fst (conclude env request s outcome) = Inr res \<Longrightarrow> e_jar_truthy env (cookiejar s) \<Longrightarrow>
     cookiejar (snd (conclude env request s outcome))
       = e_extract_cookies env (cookiejar s) res request"
  by (auto simp: conclude_def split: sum.splits option.splits if_splits)


lemma adapter_fields:
  assumes "Urllib3ResponseAdapter ok raw = Inr res"
  shows "a_res res = raw \<and> a_status res = r_status raw \<and> a_headers res = r_headers raw"
  using assms
  by (auto simp: Urllib3ResponseAdapter_def mk_adapter_def
      split: option.splits if_splits sum.splits)

lemma real_handle_fault:
  assumes "urlopen_result env request0 s0 = Some (Inl e0)"
  shows "fst (real_handle env request0 s0) =
           Inl (case translate_fault (reraise_reason e0) of
                  Some x \<Rightarrow> x | None \<Rightarrow> PyErr UnboundLocalError)"
  using assms
  by (auto simp: urlopen_result_def real_handle_def conclude_def
      split: sum.splits prod.splits option.splits)

lemma real_handle_response:
  assumes "urlopen_result env request0 s0 = Some (Inr raw)"
    and "Urllib3ResponseAdapter (e_netloc_ok env) raw = Inr res"
  shows "fst (real_handle env request0 s0) =
           (if 200 \<le> r_status raw \<and> r_status raw < 300 then Inr res
            else Inl (Typed (Urllib3HTTPError res (r_retries_total raw = Some 0))))"
  using assms adapter_fields [OF assms(2)]
  by (auto simp: urlopen_result_def real_handle_def conclude_def
      split: sum.splits prod.splits)

lemma real_handle_failure_jar:
  assumes "fst (real_handle env request0 s0) = Inl x"
  shows "cookiejar (snd (real_handle env request0 s0)) = jar_at_dispatch env request0 s0"
proof (cases "prepare env request0 s0")
  case (Inl failed)
  then obtain y s1 where "prepare env request0 s0 = Inl (y, s1)" by (cases failed) simp
  with prepare_failed [OF this] show ?thesis by (simp add: real_handle_def)
next
  case (Inr ok)
  then obtain request pm args s2 where p: "prepare env request0 s0 = Inr (request, pm, args, s2)"
    by (cases ok) auto
  with assms have "fst (conclude env request s2 (e_urlopen env pm args)) = Inl x"
    by (simp add: real_handle_def)
  from conclude_failure_jar [OF this] p prepare_dispatch [OF p]
  show ?thesis by (simp add: real_handle_def)
qed

lemma real_handle_success_jar:
  assumes "fst (real_handle env request0 s0) = Inr res"
    and "e_jar_truthy env (jar_at_dispatch env request0 s0)"
  shows "cookiejar (snd (real_handle env request0 s0))
           = e_extract_cookies env (jar_at_dispatch env request0 s0) res
               (sent_request env request0 s0)"
proof (cases "prepare env request0 s0")
  case (Inl failed)
  then obtain y s1 where "prepare env request0 s0 = Inl (y, s1)" by (cases failed) simp
  with assms(1) show ?thesis by (simp add: real_handle_def)
next
  case (Inr ok)
  then obtain request pm args s2 where p: "prepare env request0 s0 = Inr (request, pm, args, s2)"
    by (cases ok) auto
  note d = prepare_dispatch [OF p]
  from p assms(1) have ok: "fst (conclude env request s2 (e_urlopen env pm args)) = Inr res"
    by (simp add: real_handle_def)
  from assms(2) d have "e_jar_truthy env (cookiejar s2)" by simp
  from conclude_success_jar [OF ok this] p d
  show ?thesis by (simp add: real_handle_def)
qed

lemma real_handle_returns_adapter:
  assumes "urlopen_result env request0 s0 = Some (Inr raw)"
    and "fst (real_handle env request0 s0) = Inr res"
  shows "Urllib3ResponseAdapter (e_netloc_ok env) raw = Inr res"
  using assms
  by (auto simp: urlopen_result_def real_handle_def conclude_def
      split: sum.splits prod.splits if_splits)

section \<open>Faults become typed errors\<close>

lemma isinstance_any_READ_ERRORS:
  "isinstance_any e READ_ERRORS =
     (isinstance e U3_ReadTimeoutError \<or> isinstance e U3_IncompleteRead \<or> isinstance e U3_SSLError)"
  by (simp add: isinstance_any_def READ_ERRORS_def)

lemma handle_read_errors_typed:
  assumes "isinstance_any e READ_ERRORS"
    and "isinstance e U3_IncompleteRead \<Longrightarrow> has_counts e"
  shows "\<exists>err. handle_read_errors e = Typed err \<and>
           kind_of err \<in> {ReadTimeout, IncompleteReadKind, TLS}"
proof (cases "isinstance e U3_ReadTimeoutError")
  case True
  then show ?thesis by (simp add: handle_read_errors_def)
next
  case nrt: False
  show ?thesis
  proof (cases "isinstance e U3_IncompleteRead")
    case True
    with assms(2) obtain p x where "exc_partial e = Some p" "exc_expected e = Some x"
      by (auto simp: has_counts_def)
    with nrt True show ?thesis by (simp add: handle_read_errors_def)
  next
    case False
    with nrt assms(1) have "isinstance e U3_SSLError"
      by (simp add: isinstance_any_READ_ERRORS)
    with nrt False show ?thesis by (simp add: handle_read_errors_def)
  qed
qed

lemma handle_protocol_error_typed:
  assumes "isinstance e U3_ProtocolError" and "counts_readable e"
  shows "\<exists>err. handle_protocol_error e = Some (Typed err) \<and>
           kind_of err \<in> {IncompleteReadKind, Transport}"
proof (cases "exc_cause e")
  case None
  with assms(1) show ?thesis by (simp add: handle_protocol_error_def)
next
  case (Some c)
  show ?thesis
  proof (cases "isinstance c HC_IncompleteRead
                \<or> str_contains (lower (exc_str e)) ''incomplete read''")
    case True
    with assms(2) Some obtain p x where "exc_partial c = Some p" "exc_expected c = Some x"
      by (auto simp: counts_readable_def has_counts_def)
    with Some True assms(1) show ?thesis by (auto simp: handle_protocol_error_def)
  next
    case False
    with Some assms(1) show ?thesis by (simp add: handle_protocol_error_def)
  qed
qed

lemma translate_fault_typed:
  assumes "isinstance e U3_HTTPError" and "counts_readable e"
  shows "\<exists>err. translate_fault e = Some (Typed err) \<and> kind_of err \<in> fault_kinds"
proof -
  have counts: "isinstance e U3_IncompleteRead \<Longrightarrow> has_counts e"
    using assms(2) by (simp add: counts_readable_def)
  consider (ct) "isinstance e U3_ConnectTimeoutError"
    | (px) "\<not> isinstance e U3_ConnectTimeoutError" "isinstance e U3_ProxyError"
    | (rd) "\<not> isinstance e U3_ConnectTimeoutError" "\<not> isinstance e U3_ProxyError"
           "isinstance_any e READ_ERRORS"
    | (pe) "\<not> isinstance e U3_ConnectTimeoutError" "\<not> isinstance e U3_ProxyError"
           "\<not> isinstance_any e READ_ERRORS" "isinstance e U3_ProtocolError"
    | (ot) "\<not> isinstance e U3_ConnectTimeoutError" "\<not> isinstance e U3_ProxyError"
           "\<not> isinstance_any e READ_ERRORS" "\<not> isinstance e U3_ProtocolError"
    by blast
  then show ?thesis
  proof cases
    case ct
    then show ?thesis by (simp add: translate_fault_def fault_kinds_def)
  next
    case px
    then show ?thesis by (simp add: translate_fault_def fault_kinds_def)
  next
    case rd
    from handle_read_errors_typed [OF rd(3) counts]
    obtain err where "handle_read_errors e = Typed err"
      "kind_of err \<in> {ReadTimeout, IncompleteReadKind, TLS}" by blast
    with rd show ?thesis by (auto simp: translate_fault_def fault_kinds_def)
  next
    case pe
    from handle_protocol_error_typed [OF pe(4) assms(2)]
    obtain err where "handle_protocol_error e = Some (Typed err)"
      "kind_of err \<in> {IncompleteReadKind, Transport}" by blast
    with pe show ?thesis by (auto simp: translate_fault_def fault_kinds_def)
  next
    case ot
    with assms(1) show ?thesis by (simp add: translate_fault_def fault_kinds_def)
  qed
qed

lemma read_typed:
  assumes "isinstance e U3_HTTPError" and "counts_readable e"
  shows "\<exists>err. read (Inl e) = Inl (Typed err) \<and> kind_of err \<in> fault_kinds"
proof -
  have counts: "isinstance e U3_IncompleteRead \<Longrightarrow> has_counts e"
    using assms(2) by (simp add: counts_readable_def)
  consider (rd) "isinstance_any e READ_ERRORS"
    | (pe) "\<not> isinstance_any e READ_ERRORS" "isinstance e U3_ProtocolError"
    | (ot) "\<not> isinstance_any e READ_ERRORS" "\<not> isinstance e U3_ProtocolError"
    by blast
  then show ?thesis
  proof cases
    case rd
    from handle_read_errors_typed [OF rd counts]
    obtain err where "handle_read_errors e = Typed err"
      "kind_of err \<in> {ReadTimeout, IncompleteReadKind, TLS}" by blast
    with rd show ?thesis by (auto simp: read_def fault_kinds_def)
  next
    case pe
    from handle_protocol_error_typed [OF pe(2) assms(2)]
    obtain err where "handle_protocol_error e = Some (Typed err)"
      "kind_of err \<in> {IncompleteReadKind, Transport}" by blast
    with pe show ?thesis by (auto simp: read_def fault_kinds_def)
  next
    case ot
    with assms(1) show ?thesis by (simp add: read_def fault_kinds_def)
  qed
qed

lemma urlopen_fault_typed:
  assumes "urlopen_result env request0 s0 = Some (Inl e0)"
    and "isinstance (reraise_reason e0) U3_HTTPError"
    and "counts_readable (reraise_reason e0)"
  shows "\<exists>err. fst (real_handle env request0 s0) = Inl (Typed err) \<and> kind_of err \<in> fault_kinds"
proof -
  from translate_fault_typed [OF assms(2,3)]
  obtain err where "translate_fault (reraise_reason e0) = Some (Typed err)"
    "kind_of err \<in> fault_kinds"
    by blast
  with assms(1) show ?thesis by (simp add: real_handle_fault)
qed

text \<open>
  C1. The \<^verbatim>\<open>except\<close> clauses wrap the backend's faults raised inside the \<^verbatim>\<open>try\<close>
  statement (\<open>urlopen_fault_typed\<close>), but \<^verbatim>\<open>parse_url(proxy)\<close> is called before it. For a
  request whose proxy is \<^verbatim>\<open>http://proxy.example:99999\<close> the backend's
  \<^verbatim>\<open>LocationParseError\<close>, an instance of its \<^verbatim>\<open>HTTPError\<close>, leaves \<^verbatim>\<open>_real_handle\<close> as it
  is, not as a typed error, and \<^verbatim>\<open>urlopen\<close> is never reached.
\<close>

theorem parse_url_fault_escapes:
  "fst (real_handle demo_env
          ((demo_request ''https://example.com/video'')
             \<lparr>req_proxy := Some ''http://proxy.example:99999''\<rparr>)
          demo_state)
     = Inl (Raw (LocationParseError ''http://proxy.example:99999''))
   \<and> isinstance (LocationParseError ''http://proxy.example:99999'') U3_HTTPError
   \<and> urlopen_result demo_env
          ((demo_request ''https://example.com/video'')
             \<lparr>req_proxy := Some ''http://proxy.example:99999''\<rparr>)
          demo_state
       = None"
  by code_simp

section \<open>Timeouts and incomplete reads\<close>

lemma connect_timeout_translated:
  assumes "isinstance c U3_ConnectTimeoutError"
  shows "translate_fault c = Some (Typed (ConnectTimeoutError c))"
  using assms by (simp add: translate_fault_def)

lemma read_timeout_translated:
  assumes "isinstance r U3_ReadTimeoutError"
  shows "read (Inl r) = Inl (Typed (ReadTimeoutError r))"
  using assms by (simp add: read_def isinstance_any_READ_ERRORS handle_read_errors_def)

lemma socks_timeout_is_connect_timeout:
  "isinstance (u3_ConnectTimeoutError_from t) U3_ConnectTimeoutError
   \<and> \<not> isinstance (u3_ConnectTimeoutError_from t) U3_MaxRetryError"
  by (simp add: u3_ConnectTimeoutError_from_def isinstance_def)

text \<open>
  C7. A timeout of \<^verbatim>\<open>sock.connect\<close> in the SOCKS connection is raised as the backend's
  \<^verbatim>\<open>ConnectTimeoutError\<close>. Whenever the fault that reaches the \<^verbatim>\<open>except\<close> clauses of
  \<^verbatim>\<open>_real_handle\<close> is an instance of it (raised as it is, or as the reason of a
  \<^verbatim>\<open>MaxRetryError\<close>), the call fails with ConnectTimeout and not with ReadTimeout. A
  read timeout of the body read leaves \<^verbatim>\<open>Urllib3ResponseAdapter.read\<close> as ReadTimeout.
\<close>

theorem timeouts_by_phase:
  "(isinstance t Py_TimeoutError
      \<longrightarrow> new_conn (Inl t) = Inl (Raw (u3_ConnectTimeoutError_from t))
          \<and> isinstance (u3_ConnectTimeoutError_from t) U3_ConnectTimeoutError)
   \<and> (urlopen_result env request0 s0 = Some (Inl e0)
       \<and> isinstance (reraise_reason e0) U3_ConnectTimeoutError
      \<longrightarrow> fst (real_handle env request0 s0)
            = Inl (Typed (ConnectTimeoutError (reraise_reason e0)))
          \<and> (\<forall>c. fst (real_handle env request0 s0) \<noteq> Inl (Typed (ReadTimeoutError c))))
   \<and> (urlopen_result env request0 s0 = Some (Inl e0)
       \<and> (e0 = u3_ConnectTimeoutError_from t
           \<or> (isinstance e0 U3_MaxRetryError
               \<and> exc_reason e0 = Some (u3_ConnectTimeoutError_from t)))
      \<longrightarrow> fst (real_handle env request0 s0)
            = Inl (Typed (ConnectTimeoutError (u3_ConnectTimeoutError_from t))))
   \<and> (isinstance r U3_ReadTimeoutError
      \<longrightarrow> read (Inl r) = Inl (Typed (ReadTimeoutError r)))"
proof (intro conjI impI)
  assume "isinstance t Py_TimeoutError"
  then show "new_conn (Inl t) = Inl (Raw (u3_ConnectTimeoutError_from t))"
    by (simp add: new_conn_def)
next
  show "isinstance (u3_ConnectTimeoutError_from t) U3_ConnectTimeoutError"
    by (simp add: socks_timeout_is_connect_timeout)
next
  assume h: "urlopen_result env request0 s0 = Some (Inl e0)
       \<and> isinstance (reraise_reason e0) U3_ConnectTimeoutError"
  then show eq: "fst (real_handle env request0 s0)
            = Inl (Typed (ConnectTimeoutError (reraise_reason e0)))"
    by (simp add: real_handle_fault connect_timeout_translated)
  show "\<forall>c. fst (real_handle env request0 s0) \<noteq> Inl (Typed (ReadTimeoutError c))"
    by (simp add: eq)
next
  assume h: "urlopen_result env request0 s0 = Some (Inl e0)
       \<and> (e0 = u3_ConnectTimeoutError_from t
           \<or> (isinstance e0 U3_MaxRetryError
               \<and> exc_reason e0 = Some (u3_ConnectTimeoutError_from t)))"
  then have "reraise_reason e0 = u3_ConnectTimeoutError_from t"
    using socks_timeout_is_connect_timeout [of t] by (auto simp: reraise_reason_def)
  with h show "fst (real_handle env request0 s0)
            = Inl (Typed (ConnectTimeoutError (u3_ConnectTimeoutError_from t)))"
    by (simp add: real_handle_fault connect_timeout_translated socks_timeout_is_connect_timeout)
next
  assume "isinstance r U3_ReadTimeoutError"
  then show "read (Inl r) = Inl (Typed (ReadTimeoutError r))"
    by (rule read_timeout_translated)
qed

theorem timeouts_by_phase_witness:
  "new_conn (Inl socket_timeout) = Inl (Raw (u3_ConnectTimeoutError_from socket_timeout))
   \<and> fst (real_handle demo_env (demo_request ''https://slow.example/'') demo_state)
       = Inl (Typed (ConnectTimeoutError (u3_ConnectTimeoutError_from socket_timeout)))
   \<and> read (Inl u3_read_timeout) = Inl (Typed (ReadTimeoutError u3_read_timeout))"
proof -
  have a: "isinstance socket_timeout Py_TimeoutError" by code_simp
  have b: "urlopen_result demo_env (demo_request ''https://slow.example/'') demo_state
             = Some (Inl (u3_max_retry (u3_ConnectTimeoutError_from socket_timeout)))"
    by code_simp
  have c: "isinstance (u3_max_retry (u3_ConnectTimeoutError_from socket_timeout)) U3_MaxRetryError
           \<and> exc_reason (u3_max_retry (u3_ConnectTimeoutError_from socket_timeout))
               = Some (u3_ConnectTimeoutError_from socket_timeout)"
    by code_simp
  have d: "isinstance u3_read_timeout U3_ReadTimeoutError" by code_simp
  from timeouts_by_phase
         [of socket_timeout demo_env "demo_request ''https://slow.example/''" demo_state
             "u3_max_retry (u3_ConnectTimeoutError_from socket_timeout)" u3_read_timeout]
       a b c d
  show ?thesis by blast
qed

text \<open>
  C8. For a body declared as 100 bytes that ends after 80, the fault that reaches
  \<^verbatim>\<open>Urllib3ResponseAdapter.read\<close> is the backend's \<^verbatim>\<open>ProtocolError\<close> without a cause,
  whose text has \<^verbatim>\<open>IncompleteRead(\<close> in it and so not \<^verbatim>\<open>incomplete read\<close>: the test of
  \<^verbatim>\<open>handle_protocol_error\<close> fails, and the read ends in a Transport error, not in
  IncompleteRead with the counts.
\<close>

theorem truncated_body_is_transport_error:
  "read (Inl (connection_broken_fault 100 80))
     = Inl (Typed (TransportError (exc_str (connection_broken_fault 100 80))
                     (connection_broken_fault 100 80)))
   \<and> exc_cause (connection_broken_fault 100 80) = None
   \<and> str_contains (exc_str (connection_broken_fault 100 80))
         ''IncompleteRead(80 bytes read, 20 more expected)''
   \<and> \<not> str_contains (lower (exc_str (connection_broken_fault 100 80))) ''incomplete read''"
  by code_simp

section \<open>HTTP errors and the connection\<close>

lemma release_conn_default_returns:
  "\<not> r_release_override r \<Longrightarrow> r_connection r = Some c \<Longrightarrow>
     w_idle (snd (release_conn r w)) = conn_id c # w_idle w"
  by (simp add: release_conn_def)

lemma release_conn_override_kept:
  "r_release_override r \<Longrightarrow> r_release_override (fst (release_conn r w))"
  by (simp add: release_conn_def split: option.splits)

lemma release_conn_override_idle:
  "r_release_override r \<Longrightarrow> w_idle (snd (release_conn r w)) = w_idle w"
  by (simp add: release_conn_def split: option.splits)

lemma release_conn_times_idle:
  "r_release_override r \<Longrightarrow> w_idle (snd (release_conn_times n r w)) = w_idle w"
proof (induction n arbitrary: r w)
  case 0
  show ?case by simp
next
  case (Suc n)
  obtain r' w' where step: "release_conn r w = (r', w')" by (cases "release_conn r w")
  from Suc.prems have "r_release_override r'" "w_idle w' = w_idle w"
    using release_conn_override_kept [of r w] release_conn_override_idle [of r w] step
    by simp_all
  with Suc.IH [of r' w'] step show ?case by simp
qed

lemma release_conn_times_detached:
  "r_connection r = None \<Longrightarrow>
     r_connection (fst (release_conn_times n r w)) = None
     \<and> w_closed (snd (release_conn_times n r w)) = w_closed w"
  by (induction n arbitrary: r w) (simp_all add: release_conn_def)

lemma release_conn_times_closes:
  assumes "r_release_override r" "r_connection r = Some c"
  shows "r_connection (fst (release_conn_times (Suc n) r w)) = None
         \<and> conn_id c \<in> set (w_closed (snd (release_conn_times (Suc n) r w)))"
proof -
  have step: "release_conn r w = (r\<lparr>r_connection := None\<rparr>, w\<lparr>w_closed := conn_id c # w_closed w\<rparr>)"
    using assms by (simp add: release_conn_def)
  have "r_connection (r\<lparr>r_connection := None\<rparr>) = None" by simp
  from release_conn_times_detached [OF this, of n "w\<lparr>w_closed := conn_id c # w_closed w\<rparr>"] step
  show ?thesis by simp
qed

text \<open>
  C2. When \<^verbatim>\<open>urlopen\<close> returned a response whose status is outside 200..299,
  \<^verbatim>\<open>_real_handle\<close> fails with the \<^verbatim>\<open>HTTPError\<close> that \<^verbatim>\<open>Urllib3HTTPError\<close> builds, on a
  response whose \<^verbatim>\<open>release_conn\<close> has been replaced. However often the connection is
  released after that, the pool's idle set stays as it was, so the connection is never
  handed back for reuse; at the first release the connection that served the response is
  closed and detached from the response.
\<close>

theorem http_error_closes_connection:
  assumes "urlopen_result env request0 s0 = Some (Inr raw)"
    and "Urllib3ResponseAdapter (e_netloc_ok env) raw = Inr res"
    and "r_status raw < 200 \<or> 300 \<le> r_status raw"
  shows "fst (real_handle env request0 s0)
           = Inl (Typed (HTTPError (res\<lparr>a_res := raw\<lparr>r_release_override := True\<rparr>\<rparr>)
                           (r_retries_total raw = Some 0)))
         \<and> kind_of (HTTPError (res\<lparr>a_res := raw\<lparr>r_release_override := True\<rparr>\<rparr>)
                           (r_retries_total raw = Some 0)) = HTTPStatus
         \<and> (\<forall>n w. w_idle (snd (release_conn_times n (raw\<lparr>r_release_override := True\<rparr>) w))
                    = w_idle w)
         \<and> (\<forall>n w c. r_connection raw = Some c \<longrightarrow>
               r_connection (fst (release_conn_times (Suc n)
                                    (raw\<lparr>r_release_override := True\<rparr>) w)) = None
               \<and> conn_id c \<in> set (w_closed (snd (release_conn_times (Suc n)
                                    (raw\<lparr>r_release_override := True\<rparr>) w))))"
proof (intro conjI allI impI)
  from assms(3) have "\<not> (200 \<le> r_status raw \<and> r_status raw < 300)" by auto
  with real_handle_response [OF assms(1,2)] adapter_fields [OF assms(2)]
  show "fst (real_handle env request0 s0)
           = Inl (Typed (HTTPError (res\<lparr>a_res := raw\<lparr>r_release_override := True\<rparr>\<rparr>)
                           (r_retries_total raw = Some 0)))"
    by (simp add: Urllib3HTTPError_def)
next
  show "kind_of (HTTPError (res\<lparr>a_res := raw\<lparr>r_release_override := True\<rparr>\<rparr>)
                           (r_retries_total raw = Some 0)) = HTTPStatus"
    by simp
next
  fix n w
  show "w_idle (snd (release_conn_times n (raw\<lparr>r_release_override := True\<rparr>) w)) = w_idle w"
    by (simp add: release_conn_times_idle)
next
  fix n w c
  assume c: "r_connection raw = Some c"
  then have "r_release_override (raw\<lparr>r_release_override := True\<rparr>)"
    "r_connection (raw\<lparr>r_release_override := True\<rparr>) = Some c" by simp_all
  from release_conn_times_closes [OF this, of n w]
  show "r_connection (fst (release_conn_times (Suc n)
                                    (raw\<lparr>r_release_override := True\<rparr>) w)) = None"
    and "conn_id c \<in> set (w_closed (snd (release_conn_times (Suc n)
                                    (raw\<lparr>r_release_override := True\<rparr>) w)))"
    by simp_all
qed

theorem http_error_closes_connection_witness:
  "(case fst (real_handle demo_env (demo_request ''https://example.com/missing'') demo_state) of
      Inl (Typed (HTTPError res loop)) \<Rightarrow> r_release_override (a_res res) \<and> \<not> loop
    | _ \<Rightarrow> False)
   \<and> w_idle (snd (release_conn_times 2 (demo_500\<lparr>r_release_override := True\<rparr>)
                    \<lparr>w_idle = [3], w_closed = []\<rparr>)) = [3]
   \<and> w_closed (snd (release_conn_times 2 (demo_500\<lparr>r_release_override := True\<rparr>)
                    \<lparr>w_idle = [3], w_closed = []\<rparr>)) = [7]"
proof -
  have a: "urlopen_result demo_env (demo_request ''https://example.com/missing'') demo_state
             = Some (Inr demo_500)"
    by code_simp
  have b: "Urllib3ResponseAdapter (e_netloc_ok demo_env) demo_500
             = Inr (mk_adapter demo_500 (Some ''https://example.com/missing''))"
    by code_simp
  have c: "r_status demo_500 < 200 \<or> 300 \<le> r_status demo_500" by code_simp
  have d: "w_closed (snd (release_conn_times 2 (demo_500\<lparr>r_release_override := True\<rparr>)
                    \<lparr>w_idle = [3], w_closed = []\<rparr>)) = [7]"
    by code_simp
  have e: "r_retries_total demo_500 \<noteq> Some 0" by code_simp
  from http_error_closes_connection [OF a b c] d e
  show ?thesis by simp
qed

section \<open>One pool per proxy\<close>









section \<open>The dispatched headers\<close>

lemma hs_contains_iff:
  "hs_contains h name = (\<exists>kv \<in> set h. lower (fst kv) = lower name)"
  unfolding hs_contains_def set_map image_iff by (rule bex_cong) auto

lemma hs_containsI:
  "kv \<in> set h \<Longrightarrow> lower (fst kv) = lower name \<Longrightarrow> hs_contains h name"
  unfolding hs_contains_iff by (rule bexI)

lemma hs_del_removes: "\<not> hs_contains (hs_del h name) name"
  by (simp add: hs_contains_iff hs_del_def)

lemma hs_del_removes_same:
  "lower name' = lower name \<Longrightarrow> \<not> hs_contains (hs_del h name) name'"
  by (simp add: hs_contains_iff hs_del_def)

lemma hs_del_keeps:
  "kv \<in> set h \<Longrightarrow> lower (fst kv) \<noteq> lower name \<Longrightarrow> kv \<in> set (hs_del h name)"
  by (simp add: hs_del_def)

lemma hs_set_has: "(name, v) \<in> set (hs_set h name v)"
  by (simp add: hs_set_def)

lemma hs_set_keeps:
  "kv \<in> set h \<Longrightarrow> lower (fst kv) \<noteq> lower name \<Longrightarrow> kv \<in> set (hs_set h name v)"
  by (simp add: hs_set_def hs_del_keeps)

lemma hs_set_contains:
  "hs_contains h n \<or> lower n = lower name \<Longrightarrow> hs_contains (hs_set h name v) n"
proof (cases "lower n = lower name")
  case True
  with hs_set_has [of name v h] show ?thesis
    unfolding hs_contains_iff by (intro bexI [of _ "(name, v)"]) simp_all
next
  case False
  assume "hs_contains h n \<or> lower n = lower name"
  with False obtain kv where "kv \<in> set h" "lower (fst kv) = lower n"
    by (auto simp: hs_contains_iff)
  with False hs_set_keeps [of kv h name v] have "kv \<in> set (hs_set h name v)" by simp
  with \<open>lower (fst kv) = lower n\<close> show ?thesis
    unfolding hs_contains_iff by (intro bexI [of _ kv]) simp_all
qed

lemma hs_update_Cons: "hs_update h (kv # layer) = hs_update (hs_set h (fst kv) (snd kv)) layer"
  by (simp add: hs_update_def)

lemma hs_update_contains:
  "hs_contains h n \<or> lower n \<in> set (map (\<lambda>kv. lower (fst kv)) layer)
     \<Longrightarrow> hs_contains (hs_update h layer) n"
proof (induction layer arbitrary: h)
  case Nil
  then show ?case by (simp add: hs_update_def)
next
  case (Cons kv layer)
  from Cons.prems
  have "hs_contains (hs_set h (fst kv) (snd kv)) n
          \<or> lower n \<in> set (map (\<lambda>kv. lower (fst kv)) layer)"
    using hs_set_contains [of h n "fst kv" "snd kv"] by auto
  from Cons.IH [OF this] show ?case by (simp only: hs_update_Cons)
qed

lemma hs_update_keeps:
  "kv \<in> set h \<Longrightarrow> lower (fst kv) \<notin> set (map (\<lambda>kv. lower (fst kv)) layer)
     \<Longrightarrow> kv \<in> set (hs_update h layer)"
proof (induction layer arbitrary: h)
  case Nil
  then show ?case by (simp add: hs_update_def)
next
  case (Cons x layer)
  from Cons.prems have a: "kv \<in> set (hs_set h (fst x) (snd x))"
    by (simp add: hs_set_keeps)
  from Cons.prems have b: "lower (fst kv) \<notin> set (map (\<lambda>kv. lower (fst kv)) layer)"
    by simp
  from Cons.IH [OF a b] show ?case by (simp only: hs_update_Cons)
qed

lemma hs_update_has:
  "kv \<in> set layer \<Longrightarrow> distinct (map (\<lambda>kv. lower (fst kv)) layer)
     \<Longrightarrow> kv \<in> set (hs_update h layer)"
proof (induction layer arbitrary: h)
  case Nil
  then show ?case by simp
next
  case (Cons x layer)
  show ?case
  proof (cases "kv = x")
    case True
    have a: "kv \<in> set (hs_set h (fst x) (snd x))"
      using True hs_set_has [of "fst x" "snd x" h] by simp
    from Cons.prems(2) True
    have b: "lower (fst kv) \<notin> set (map (\<lambda>kv. lower (fst kv)) layer)" by simp
    from hs_update_keeps [OF a b] show ?thesis by (simp only: hs_update_Cons)
  next
    case False
    with Cons.prems have "kv \<in> set layer" "distinct (map (\<lambda>kv. lower (fst kv)) layer)"
      by simp_all
    from Cons.IH [OF this] show ?thesis by (simp only: hs_update_Cons)
  qed
qed

lemma store_last_layer:
  "UniqueHTTPHeaderStore [a, b, c, Some layer] =
     hs_update (UniqueHTTPHeaderStore [a, b, c]) layer"
  by (simp add: UniqueHTTPHeaderStore_def)

lemma lower_accept_encoding:
  "lower ''Accept-Encoding'' = ''accept-encoding'' \<and> lower ''accept-encoding'' = ''accept-encoding''"
  by code_simp

lemma dispatch_headers_no_accept_encoding:
  "\<not> req_compression request \<Longrightarrow> kv \<in> set (dispatch_headers env request)
     \<Longrightarrow> lower (fst kv) \<noteq> ''accept-encoding''"
  by (auto simp: dispatch_headers_def Let_def hs_del_def lower_accept_encoding)

lemma dispatch_headers_contains_unredirected:
  assumes "(name, v) \<in> set (req_unredirected_headers request)"
    and "req_compression request \<or> lower name \<noteq> ''accept-encoding''"
  shows "hs_contains (dispatch_headers env request) name"
proof -
  let ?h0 = "UniqueHTTPHeaderStore
            [Some (e_std_headers env), e_http_headers env, Some (req_headers request),
             Some (req_unredirected_headers request)]"
  from assms(1) have "lower name \<in> set (map (\<lambda>kv. lower (fst kv)) (req_unredirected_headers request))"
    by force
  then have h0: "hs_contains ?h0 name"
    unfolding store_last_layer by (intro hs_update_contains disjI2)
  let ?h1 = "if \<not> hs_contains ?h0 ''Accept-Encoding''
             then hs_set ?h0 ''Accept-Encoding'' (join '', '' (SUPPORTED_ENCODINGS (e_brotli env)))
             else ?h0"
  from h0 have h1: "hs_contains ?h1 name" by (simp add: hs_set_contains)
  show ?thesis
  proof (cases "req_compression request")
    case True
    with h1 show ?thesis by (simp add: dispatch_headers_def Let_def)
  next
    case False
    with assms(2) have ne: "lower name \<noteq> lower ''accept-encoding''"
      by (simp add: lower_accept_encoding)
    from h1 obtain kv where "kv \<in> set ?h1" "lower (fst kv) = lower name"
      by (auto simp: hs_contains_iff)
    with ne have "kv \<in> set (hs_del ?h1 ''accept-encoding'')" by (simp add: hs_del_keeps)
    from this \<open>lower (fst kv) = lower name\<close>
    have "hs_contains (hs_del ?h1 ''accept-encoding'') name"
      by (rule hs_containsI)
    with False show ?thesis by (simp add: dispatch_headers_def Let_def)
  qed
qed

lemma dispatch_headers_has_unredirected:
  assumes "(name, v) \<in> set (req_unredirected_headers request)"
    and "distinct (map (\<lambda>kv. lower (fst kv)) (req_unredirected_headers request))"
    and "lower name \<noteq> ''accept-encoding''"
  shows "(name, v) \<in> set (dispatch_headers env request)"
proof -
  let ?h0 = "UniqueHTTPHeaderStore
            [Some (e_std_headers env), e_http_headers env, Some (req_headers request),
             Some (req_unredirected_headers request)]"
  have h0: "(name, v) \<in> set ?h0"
    unfolding store_last_layer using assms(1,2) by (rule hs_update_has)
  let ?h1 = "if \<not> hs_contains ?h0 ''Accept-Encoding''
             then hs_set ?h0 ''Accept-Encoding'' (join '', '' (SUPPORTED_ENCODINGS (e_brotli env)))
             else ?h0"
  from assms(3) have ne: "lower (fst (name, v)) \<noteq> lower ''Accept-Encoding''"
    "lower (fst (name, v)) \<noteq> lower ''accept-encoding''"
    by (simp_all add: lower_accept_encoding)
  from h0 ne(1) have h1: "(name, v) \<in> set ?h1" by (simp add: hs_set_keeps)
  from h1 ne(2) have "(name, v) \<in> set (hs_del ?h1 ''accept-encoding'')" by (rule hs_del_keeps)
  with h1 show ?thesis by (simp add: dispatch_headers_def Let_def)
qed

lemma redirect_headers_same_host: "redirect_headers retries True hdrs = hdrs"
  by (simp add: redirect_headers_def)

lemma redirect_headers_strips:
  assumes "name \<in> set (remove_headers_on_redirect retries)"
  shows "\<not> hs_contains (redirect_headers retries False hdrs) name"
proof -
  from assms have "remove_headers_on_redirect retries \<noteq> []" by auto
  moreover from assms have "lower name \<in> set (map lower (remove_headers_on_redirect retries))"
    by simp
  ultimately show ?thesis
    by (auto simp: redirect_headers_def hs_contains_iff)
qed

text \<open>
  C4. The header set and the retry policy that \<^verbatim>\<open>_real_handle\<close> gives to \<^verbatim>\<open>urlopen\<close>
  are such that a redirect to another host leaves no header with the name of an
  unredirected header of the request in the header set of the redirected request, and a
  redirect to the same host leaves the header set as it was, every unredirected header
  still in it (an \<^verbatim>\<open>Accept-Encoding\<close> among them is absent from the start when
  compression is off, see C9; a name given twice keeps its last value).
\<close>

theorem unredirected_headers_on_redirect:
  assumes "request = sent_request env request0 s0"
    and "args = dispatch_args env request"
    and "(name, v) \<in> set (req_unredirected_headers request)"
  shows "\<not> hs_contains (redirect_headers (ua_retries args) False (ua_headers args)) name
       \<and> redirect_headers (ua_retries args) True (ua_headers args) = ua_headers args
       \<and> (req_compression request \<or> lower name \<noteq> ''accept-encoding''
           \<longrightarrow> hs_contains (redirect_headers (ua_retries args) True (ua_headers args)) name)
       \<and> (distinct (map (\<lambda>kv. lower (fst kv)) (req_unredirected_headers request))
            \<and> lower name \<noteq> ''accept-encoding''
           \<longrightarrow> (name, v) \<in> set (redirect_headers (ua_retries args) True (ua_headers args)))"
proof (intro conjI impI)
  from assms(3) have "name \<in> set (remove_headers_on_redirect (ua_retries args))"
    by (force simp: assms(2) dispatch_args_def dispatch_retries_def)
  then show "\<not> hs_contains (redirect_headers (ua_retries args) False (ua_headers args)) name"
    by (rule redirect_headers_strips)
next
  have hdrs: "ua_headers args = dispatch_headers env request"
    by (simp add: assms(2) dispatch_args_def)
  show "redirect_headers (ua_retries args) True (ua_headers args) = ua_headers args"
    by (rule redirect_headers_same_host)
  {
    assume "req_compression request \<or> lower name \<noteq> ''accept-encoding''"
    with assms(3) have "hs_contains (dispatch_headers env request) name"
      by (rule dispatch_headers_contains_unredirected)
    then show "hs_contains (redirect_headers (ua_retries args) True (ua_headers args)) name"
      by (simp add: redirect_headers_same_host hdrs)
  }
  {
    assume "distinct (map (\<lambda>kv. lower (fst kv)) (req_unredirected_headers request))
            \<and> lower name \<noteq> ''accept-encoding''"
    with assms(3) have "(name, v) \<in> set (dispatch_headers env request)"
      by (simp add: dispatch_headers_has_unredirected)
    then show "(name, v) \<in> set (redirect_headers (ua_retries args) True (ua_headers args))"
      by (simp add: redirect_headers_same_host hdrs)
  }
qed

theorem unredirected_headers_on_redirect_witness:
  "\<not> hs_contains
       (redirect_headers
          (ua_retries (dispatch_args demo_env
             (sent_request demo_env (demo_request ''https://example.com/video'') demo_state)))
          False
          (ua_headers (dispatch_args demo_env
             (sent_request demo_env (demo_request ''https://example.com/video'') demo_state))))
       ''Authorization''
   \<and> (''Authorization'', ''Bearer t'')
       \<in> set (redirect_headers
          (ua_retries (dispatch_args demo_env
             (sent_request demo_env (demo_request ''https://example.com/video'') demo_state)))
          True
          (ua_headers (dispatch_args demo_env
             (sent_request demo_env (demo_request ''https://example.com/video'') demo_state))))"
proof -
  let ?r = "sent_request demo_env (demo_request ''https://example.com/video'') demo_state"
  have a: "(''Authorization'', ''Bearer t'') \<in> set (req_unredirected_headers ?r)"
    by code_simp
  have b: "distinct (map (\<lambda>kv. lower (fst kv)) (req_unredirected_headers ?r))
           \<and> lower ''Authorization'' \<noteq> ''accept-encoding''"
    by code_simp
  from unredirected_headers_on_redirect [OF refl refl a] b
  show ?thesis by blast
qed

text \<open>
  C9. With the compression flag off, the header set given to \<^verbatim>\<open>urlopen\<close> has no
  \<^verbatim>\<open>Accept-Encoding\<close> header in any spelling, whatever the default, session and request
  headers say.
\<close>

theorem no_accept_encoding_without_compression:
  assumes "\<not> req_compression request"
  shows "\<not> hs_contains (ua_headers (dispatch_args env request)) ''Accept-Encoding''
       \<and> (\<forall>kv \<in> set (ua_headers (dispatch_args env request)).
             lower (fst kv) \<noteq> ''accept-encoding'')"
proof -
  have all: "\<forall>kv \<in> set (dispatch_headers env request). lower (fst kv) \<noteq> ''accept-encoding''"
    using assms dispatch_headers_no_accept_encoding by blast
  then have "\<not> hs_contains (dispatch_headers env request) ''Accept-Encoding''"
    by (auto simp: hs_contains_iff lower_accept_encoding)
  with all show ?thesis by (simp add: dispatch_args_def)
qed

theorem no_accept_encoding_without_compression_witness:
  "\<not> hs_contains
       (ua_headers (dispatch_args demo_env
          ((demo_request ''https://example.com/video'')\<lparr>req_compression := False\<rparr>)))
       ''Accept-Encoding''
   \<and> ua_headers (dispatch_args demo_env
          ((demo_request ''https://example.com/video'')\<lparr>req_compression := False\<rparr>))
       = [(''User-Agent'', ''Mozilla/5.0''), (''Accept'', ''*/*''),
          (''Authorization'', ''Bearer t'')]
   \<and> hs_contains (req_headers (demo_request ''https://example.com/video'')) ''Accept-Encoding''"
proof -
  have a: "\<not> req_compression ((demo_request ''https://example.com/video'')\<lparr>req_compression := False\<rparr>)"
    by simp
  have b: "ua_headers (dispatch_args demo_env
          ((demo_request ''https://example.com/video'')\<lparr>req_compression := False\<rparr>))
       = [(''User-Agent'', ''Mozilla/5.0''), (''Accept'', ''*/*''),
          (''Authorization'', ''Bearer t'')]"
    by code_simp
  have c: "hs_contains (req_headers (demo_request ''https://example.com/video'')) ''Accept-Encoding''"
    by code_simp
  from no_accept_encoding_without_compression [OF a, of demo_env] b c
  show ?thesis by blast
qed

section \<open>Cookies\<close>

text \<open>
  C5, as the code has it. The cookie store's \<^verbatim>\<open>add_cookie_header\<close> is applied first, and
  the header set given to \<^verbatim>\<open>urlopen\<close> is built from the request it leaves. When the call
  returns a response and the store is truthy, the store afterwards is the result of
  \<^verbatim>\<open>extract_cookies\<close> on the response. Whenever the call fails, the store is as it was
  at dispatch: nothing is extracted, on an HTTP-status error (a status outside 200..299)
  as on any other failure.
\<close>

theorem cookies_only_on_success:
  "(prepare env request0 s0 = Inr (request, pm, args, s2)
      \<longrightarrow> request = sent_request env request0 s0
          \<and> ua_headers args = dispatch_headers env request
          \<and> cookiejar s2 = jar_at_dispatch env request0 s0)
   \<and> (fst (real_handle env request0 s0) = Inr res
       \<and> e_jar_truthy env (jar_at_dispatch env request0 s0)
      \<longrightarrow> cookiejar (snd (real_handle env request0 s0))
            = e_extract_cookies env (jar_at_dispatch env request0 s0) res
                (sent_request env request0 s0))
   \<and> (fst (real_handle env request0 s0) = Inl x
      \<longrightarrow> cookiejar (snd (real_handle env request0 s0)) = jar_at_dispatch env request0 s0)
   \<and> (urlopen_result env request0 s0 = Some (Inr raw)
       \<and> Urllib3ResponseAdapter (e_netloc_ok env) raw = Inr a
       \<and> (r_status raw < 200 \<or> 300 \<le> r_status raw)
      \<longrightarrow> (\<exists>err. fst (real_handle env request0 s0) = Inl (Typed err)
                 \<and> kind_of err = HTTPStatus)
          \<and> cookiejar (snd (real_handle env request0 s0)) = jar_at_dispatch env request0 s0)"
proof (intro conjI impI)
  assume p: "prepare env request0 s0 = Inr (request, pm, args, s2)"
  from prepare_dispatch [OF p]
  show "request = sent_request env request0 s0"
    and "ua_headers args = dispatch_headers env request"
    and "cookiejar s2 = jar_at_dispatch env request0 s0"
    by (simp_all add: dispatch_args_def)
next
  assume "fst (real_handle env request0 s0) = Inr res
       \<and> e_jar_truthy env (jar_at_dispatch env request0 s0)"
  then show "cookiejar (snd (real_handle env request0 s0))
            = e_extract_cookies env (jar_at_dispatch env request0 s0) res
                (sent_request env request0 s0)"
    by (simp add: real_handle_success_jar)
next
  assume "fst (real_handle env request0 s0) = Inl x"
  then show "cookiejar (snd (real_handle env request0 s0)) = jar_at_dispatch env request0 s0"
    by (rule real_handle_failure_jar)
next
  assume h: "urlopen_result env request0 s0 = Some (Inr raw)
       \<and> Urllib3ResponseAdapter (e_netloc_ok env) raw = Inr a
       \<and> (r_status raw < 200 \<or> 300 \<le> r_status raw)"
  then have "\<not> (200 \<le> r_status raw \<and> r_status raw < 300)" by auto
  with h real_handle_response [of env request0 s0 raw a]
  have f: "fst (real_handle env request0 s0)
          = Inl (Typed (Urllib3HTTPError a (r_retries_total raw = Some 0)))"
    by simp
  then show "\<exists>err. fst (real_handle env request0 s0) = Inl (Typed err)
                 \<and> kind_of err = HTTPStatus"
    by (simp add: Urllib3HTTPError_def)
  from f show "cookiejar (snd (real_handle env request0 s0)) = jar_at_dispatch env request0 s0"
    by (rule real_handle_failure_jar)
qed

theorem cookies_only_on_success_witness:
  "cookiejar (snd (real_handle demo_env (demo_request ''https://example.com/video'') demo_state))
     = [''a=b'', ''sid=1'']
   \<and> (''Cookie'', ''a=b'')
       \<in> set (dispatch_headers demo_env
                 (sent_request demo_env (demo_request ''https://example.com/video'') demo_state))
   \<and> cookiejar (snd (real_handle demo_env (demo_request ''https://odd.example/'') demo_state))
     = [''a=b'']
   \<and> cookiejar (snd (real_handle demo_env (demo_request ''https://example.com/missing'')
                        demo_state))
     = [''a=b'']"
proof -
  let ?ok = "demo_request ''https://example.com/video''"
  let ?bad = "demo_request ''https://odd.example/''"
  let ?missing = "demo_request ''https://example.com/missing''"
  let ?res = "mk_adapter (demo_response ''https://example.com/video'' 200)
                (Some ''https://example.com/video'')"
  have a: "fst (real_handle demo_env ?ok demo_state) = Inr ?res" by code_simp
  have b: "e_jar_truthy demo_env (jar_at_dispatch demo_env ?ok demo_state)" by code_simp
  have c: "e_extract_cookies demo_env (jar_at_dispatch demo_env ?ok demo_state) ?res
             (sent_request demo_env ?ok demo_state) = [''a=b'', ''sid=1'']"
    by code_simp
  have d: "(''Cookie'', ''a=b'')
       \<in> set (dispatch_headers demo_env (sent_request demo_env ?ok demo_state))"
    by code_simp
  have e: "fst (real_handle demo_env ?bad demo_state) = Inl (Raw socket_timeout)" by code_simp
  have f: "jar_at_dispatch demo_env ?bad demo_state = [''a=b'']" by code_simp
  have g: "urlopen_result demo_env ?missing demo_state = Some (Inr demo_500)
       \<and> Urllib3ResponseAdapter (e_netloc_ok demo_env) demo_500
           = Inr (mk_adapter demo_500 (Some ''https://example.com/missing''))
       \<and> (r_status demo_500 < 200 \<or> 300 \<le> r_status demo_500)"
    by code_simp
  have h: "jar_at_dispatch demo_env ?missing demo_state = [''a=b'']" by code_simp
  from cookies_only_on_success
         [of demo_env ?ok demo_state _ _ _ _ ?res]
       a b c
  have 1: "cookiejar (snd (real_handle demo_env ?ok demo_state)) = [''a=b'', ''sid=1'']"
    by simp
  from cookies_only_on_success
         [of demo_env ?bad demo_state _ _ _ _ _ "Raw socket_timeout"] e f
  have 2: "cookiejar (snd (real_handle demo_env ?bad demo_state)) = [''a=b'']"
    by simp
  from cookies_only_on_success
         [of demo_env ?missing demo_state _ _ _ _ _ _ demo_500
            "mk_adapter demo_500 (Some ''https://example.com/missing'')"] g h
  have 3: "cookiejar (snd (real_handle demo_env ?missing demo_state)) = [''a=b'']"
    by simp
  from 1 d 2 3 show ?thesis by blast
qed

text \<open>
  C5 as stated fails: a response with status 500 and a \<^verbatim>\<open>Set-Cookie\<close> header ends in
  the HTTP-status error and leaves the cookie store as it was, while the same header on a
  response with status 200 is taken into the store.
\<close>

theorem no_cookie_extraction_on_http_error:
  "raised_kind
     (fst (real_handle demo_env (demo_request ''https://example.com/missing'') demo_state))
     = Some HTTPStatus
   \<and> a_headers (mk_adapter demo_500 (Some ''https://example.com/missing''))
       = [(''Set-Cookie'', ''sid=1'')]
   \<and> cookiejar (snd (real_handle demo_env (demo_request ''https://example.com/missing'')
                        demo_state))
       = [''a=b'']
   \<and> cookiejar (snd (real_handle demo_env (demo_request ''https://example.com/video'')
                        demo_state))
       = [''a=b'', ''sid=1'']"
  by code_simp

section \<open>The proxy\<close>

lemma url_of_with_scheme:
  "u_scheme pp = None \<Longrightarrow> url_of (pp\<lparr>u_scheme := Some sch\<rparr>) = sch @ ''://'' @ url_of pp"
  by (simp add: url_of_def opt_str_def)

lemma resolve_proxy_no_scheme:
  assumes "req_proxy request = Some p" and "p \<noteq> []"
    and "parse_url p = Inr pp" and "u_scheme pp = None"
    and "parse_url (req_url request) = Inr t" and "u_scheme t = Some sch"
  shows "resolve_proxy parse_url request = Inr (Some (sch @ ''://'' @ url_of pp))"
  using assms by (simp add: resolve_proxy_def truthy_def url_of_with_scheme)

lemma resolve_proxy_with_scheme:
  assumes "req_proxy request = Some p" and "p \<noteq> []"
    and "parse_url p = Inr pp" and "u_scheme pp \<noteq> None"
  shows "resolve_proxy parse_url request = Inr (Some p)"
  using assms by (auto simp: resolve_proxy_def truthy_def)

text \<open>
  C6. The scheme of the target is given to a proxy only when the backend's \<^verbatim>\<open>parse_url\<close>
  reports none for it (\<open>resolve_proxy_no_scheme\<close>), as for \<^verbatim>\<open>1.2.3.4:1080\<close>. In a proxy
  written as a host name and a port, \<^verbatim>\<open>myproxy:8080\<close>, \<^verbatim>\<open>parse_url\<close> reads the host name
  as the scheme: for the target \<^verbatim>\<open>https://example.com/video\<close> the proxy is passed on as it
  was written, without \<^verbatim>\<open>https\<close>, the pool manager cannot be built for it, no pool is
  stored, and the call ends in a Transport error.
\<close>

theorem named_host_proxy_gets_no_scheme:
  "resolved_proxy demo_env
     ((demo_request ''https://example.com/video'')\<lparr>req_proxy := Some ''myproxy:8080''\<rparr>)
     demo_state
     = Inr (Some ''myproxy:8080'')
   \<and> raised_kind (fst (real_handle demo_env
        ((demo_request ''https://example.com/video'')\<lparr>req_proxy := Some ''myproxy:8080''\<rparr>)
        demo_state))
     = Some Transport
   \<and> pools (snd (real_handle demo_env
        ((demo_request ''https://example.com/video'')\<lparr>req_proxy := Some ''myproxy:8080''\<rparr>)
        demo_state)) ''myproxy:8080''
     = None
   \<and> resolved_proxy demo_env
     ((demo_request ''https://example.com/video'')\<lparr>req_proxy := Some ''1.2.3.4:1080''\<rparr>)
     demo_state
     = Inr (Some ''https://1.2.3.4:1080'')"
  by code_simp

section \<open>The final URL\<close>

lemma geturl_https:
  assumes "pr_netloc p \<noteq> []" and "pr_scheme p = ''https''"
  shows "\<exists>rest. geturl p = ''https://'' @ pr_netloc p @ rest"
  using assms by (simp add: geturl_def Let_def)

lemma adapter_url:
  assumes "Urllib3ResponseAdapter ok raw = Inr res"
    and "r_geturl raw = Some u" and "u \<noteq> []" and "urlparse ok u = Inr p"
  shows "(hostname p = None \<longrightarrow>
            (\<exists>c. r_connection raw = Some c
                \<and> adapter_geturl res
                    = Some (geturl (p\<lparr>pr_scheme := ''https'',
                          pr_netloc := conn_host c @ '':'' @ str_nat (conn_port c)\<rparr>))))
         \<and> (hostname p \<noteq> None \<longrightarrow> adapter_geturl res = Some (geturl p))"
  using assms
  by (auto simp: Urllib3ResponseAdapter_def mk_adapter_def adapter_geturl_def
      split: option.splits if_splits)

text \<open>
  C10, as the code has it. On a successful call whose backend-reported URL is not empty:
  when that URL parses without a hostname, the response's URL is the parsed URL put
  together again with the connection's \<open>host:port\<close> as network location and the scheme
  \<^verbatim>\<open>https\<close>, whatever the scheme of the request, so it starts with \<open>https://host:port\<close>;
  when it parses with a hostname, the response's URL is the parsed URL put together
  again, \<^verbatim>\<open>urlparse(url).geturl()\<close>.
\<close>

theorem final_url_rebuilt:
  assumes "urlopen_result env request0 s0 = Some (Inr raw)"
    and "fst (real_handle env request0 s0) = Inr res"
    and "r_geturl raw = Some u" and "u \<noteq> []"
    and "urlparse (e_netloc_ok env) u = Inr p"
  shows "(hostname p = None \<longrightarrow>
            (\<exists>c. r_connection raw = Some c
                \<and> adapter_geturl res
                    = Some (geturl (p\<lparr>pr_scheme := ''https'',
                          pr_netloc := conn_host c @ '':'' @ str_nat (conn_port c)\<rparr>))
                \<and> (\<exists>rest. adapter_geturl res
                    = Some (''https://'' @ conn_host c @ '':'' @ str_nat (conn_port c) @ rest))))
         \<and> (hostname p \<noteq> None \<longrightarrow> adapter_geturl res = Some (geturl p))"
proof (intro conjI impI)
  note a = adapter_url [OF real_handle_returns_adapter [OF assms(1,2)] assms(3-5)]
  {
    assume "hostname p = None"
    with a obtain c where c: "r_connection raw = Some c"
      "adapter_geturl res
         = Some (geturl (p\<lparr>pr_scheme := ''https'',
                          pr_netloc := conn_host c @ '':'' @ str_nat (conn_port c)\<rparr>))"
      by blast
    let ?q = "p\<lparr>pr_scheme := ''https'',
               pr_netloc := conn_host c @ '':'' @ str_nat (conn_port c)\<rparr>"
    have "pr_netloc ?q \<noteq> []" "pr_scheme ?q = ''https''" by simp_all
    from geturl_https [OF this] obtain rest where
      "geturl ?q = ''https://'' @ conn_host c @ '':'' @ str_nat (conn_port c) @ rest"
      by auto
    with c show "\<exists>c. r_connection raw = Some c
                \<and> adapter_geturl res
                    = Some (geturl (p\<lparr>pr_scheme := ''https'',
                          pr_netloc := conn_host c @ '':'' @ str_nat (conn_port c)\<rparr>))
                \<and> (\<exists>rest. adapter_geturl res
                    = Some (''https://'' @ conn_host c @ '':'' @ str_nat (conn_port c) @ rest))"
      by auto
  }
  {
    assume "hostname p \<noteq> None"
    with a show "adapter_geturl res = Some (geturl p)" by blast
  }
qed

theorem final_url_rebuilt_witness:
  "map_sum id adapter_geturl
     (fst (real_handle demo_env (demo_request ''https://example.com/moved'') demo_state))
     = Inr (Some ''https://example.com:443/watch?v=1'')
   \<and> map_sum id adapter_geturl
     (fst (real_handle demo_env (demo_request ''https://example.com/video'') demo_state))
     = Inr (Some ''https://example.com/video'')"
proof -
  let ?moved = "demo_request ''https://example.com/moved''"
  let ?raw = "demo_response ''/watch?v=1'' 200"
  let ?res = "mk_adapter ?raw (Some ''https://example.com:443/watch?v=1'')"
  let ?p = "\<lparr>pr_scheme = [], pr_netloc = [], pr_path = ''/watch'', pr_params = [],
             pr_query = ''v=1'', pr_fragment = []\<rparr>"
  let ?video = "demo_request ''https://example.com/video''"
  let ?raw2 = "demo_response ''https://example.com/video'' 200"
  let ?res2 = "mk_adapter ?raw2 (Some ''https://example.com/video'')"
  let ?p2 = "\<lparr>pr_scheme = ''https'', pr_netloc = ''example.com'', pr_path = ''/video'',
              pr_params = [], pr_query = [], pr_fragment = []\<rparr>"
  have a: "urlopen_result demo_env ?moved demo_state = Some (Inr ?raw)" by code_simp
  have b: "fst (real_handle demo_env ?moved demo_state) = Inr ?res" by code_simp
  have c: "r_geturl ?raw = Some ''/watch?v=1''" by code_simp
  have d: "urlparse (e_netloc_ok demo_env) ''/watch?v=1'' = Inr ?p" by code_simp
  have e: "hostname ?p = None" by code_simp
  have a2: "urlopen_result demo_env ?video demo_state = Some (Inr ?raw2)" by code_simp
  have b2: "fst (real_handle demo_env ?video demo_state) = Inr ?res2" by code_simp
  have c2: "r_geturl ?raw2 = Some ''https://example.com/video''" by code_simp
  have d2: "urlparse (e_netloc_ok demo_env) ''https://example.com/video'' = Inr ?p2"
    by code_simp
  have e2: "hostname ?p2 \<noteq> None" by code_simp
  have f: "adapter_geturl ?res = Some ''https://example.com:443/watch?v=1''"
    by (simp add: adapter_geturl_def mk_adapter_def)
  have g2: "geturl ?p2 = ''https://example.com/video''" by code_simp
  from final_url_rebuilt [OF a b c _ d] e
  have 1: "\<exists>c. r_connection ?raw = Some c" by auto
  from final_url_rebuilt [OF a2 b2 c2 _ d2] e2 g2
  have 2: "adapter_geturl ?res2 = Some ''https://example.com/video''" by simp
  from 1 b f b2 2 show ?thesis by simp
qed

text \<open>
  C10 as stated fails in its last part: a reported URL with a hostname is not always
  returned as it was. The round trip through the parser drops the question mark of an
  empty query and lower-cases the scheme.
\<close>

theorem reported_url_modified:
  "map_sum id hostname (urlparse (e_netloc_ok demo_env) ''https://example.com/video?'')
     = Inr (Some ''example.com'')
   \<and> map_sum id adapter_geturl
       (fst (real_handle demo_env (demo_request ''https://example.com/video?'') demo_state))
     = Inr (Some ''https://example.com/video'')
   \<and> map_sum id adapter_geturl
       (Urllib3ResponseAdapter (e_netloc_ok demo_env)
          (demo_response ''HTTP://example.com/'' 200))
     = Inr (Some ''http://example.com/'')"
  by code_simp

end
